theory Spec2Isabelle
  imports Main "HOL-Library.Sublist"
begin

section \<open>Strings and numbers of the host language\<close>

text \<open>
  The component is written in TypeScript. A string is modelled as a \<open>char list\<close> whose
  elements are code units in the range 0..255. The properties \<open>maxDocuments\<close> and
  \<open>refDepth\<close> are integers, and a length is a natural number; their text is the decimal
  numeral, which is what \<open>String(n)\<close> gives an integer below \<open>10^21\<close>.
\<close>

definition is_space :: "char \<Rightarrow> bool" where
  "is_space c =
     (c \<in> set [CHR 0x09, CHR 0x0A, CHR 0x0B, CHR 0x0C, CHR 0x0D, CHR '' '', CHR 0xA0])"

text \<open>\<open>s.trim()\<close>: white space removed at both ends.\<close>

definition trim :: "string \<Rightarrow> string" where
  "trim s = rev (dropWhile is_space (rev (dropWhile is_space s)))"

text \<open>\<open>s.split(sep)\<close> for a one-character separator; \<open>''''.split(sep)\<close> is \<open>['''']\<close>.\<close>

fun split_str :: "char \<Rightarrow> string \<Rightarrow> string list" where
  "split_str sep [] = [[]]"
| "split_str sep (c # cs) =
     (if c = sep then [] # split_str sep cs
      else (case split_str sep cs of
              [] \<Rightarrow> [[c]]
            | w # ws \<Rightarrow> (c # w) # ws))"

text \<open>\<open>xs.join(sep)\<close>.\<close>

fun join :: "string \<Rightarrow> string list \<Rightarrow> string" where
  "join sep [] = []"
| "join sep [x] = x"
| "join sep (x # y # ys) = x @ sep @ join sep (y # ys)"

definition digit_char :: "nat \<Rightarrow> char" where
  "digit_char d = ''0123456789'' ! d"

fun digits :: "nat \<Rightarrow> string" where
  "digits n = (if n < 10 then [digit_char n] else digits (n div 10) @ [digit_char (n mod 10)])"

declare digits.simps [simp del]

text \<open>\<open>String(i)\<close>, also what \<open>${i}\<close> inserts into a template literal.\<close>

definition String_int :: "int \<Rightarrow> string" where
  "String_int i = (if i < 0 then ''-'' @ digits (nat (- i)) else digits (nat i))"



section \<open>Values of the host language\<close>

text \<open>
  What a query can return is JSON data. A number is represented by the text that
  \<open>String(n)\<close> gives it, which is also the text \<open>JSON.stringify(n)\<close> gives it and which
  identifies the number (zero, of either sign, is \<open>0\<close>); the code compares a number with
  zero and prints it, and does nothing else with it. The keys of an object are distinct
  and stand in the order in which \<open>Object.keys\<close> lists them.
\<close>

datatype json =
    JNull
  | JBool bool
  | JNum string
  | JStr string
  | JArr "json list"
  | JObj "(string \<times> json) list"

text \<open>
  What reading a property can give: \<open>undefined\<close>, JSON data, or a member found on the
  prototype chain, which is a function (with the text \<open>String\<close> gives it) or an object
  of the host (with the texts \<open>String\<close> and \<open>JSON.stringify\<close> give it).
\<close>

datatype js_value =
    Undefined
  | Data json
  | Function string
  | Host_object string string

datatype js_type = T_undefined | T_object | T_boolean | T_number | T_string | T_function

text \<open>The \<open>typeof\<close> operator: \<open>null\<close>, arrays and objects are all \<open>'object'\<close>.\<close>

fun typeof :: "js_value \<Rightarrow> js_type" where
  "typeof Undefined = T_undefined"
| "typeof (Data JNull) = T_object"
| "typeof (Data (JBool b)) = T_boolean"
| "typeof (Data (JNum n)) = T_number"
| "typeof (Data (JStr s)) = T_string"
| "typeof (Data (JArr xs)) = T_object"
| "typeof (Data (JObj kvs)) = T_object"
| "typeof (Function body) = T_function"
| "typeof (Host_object s j) = T_object"

text \<open>
  What a \<open>throw\<close> carries: an \<open>Error\<close> object with its message, or any other value.
\<close>

datatype thrown = Error_object string | Other_thrown

text \<open>
  The built-in objects are not part of the component. The members a value inherits from
  its prototype chain, and the messages of the \<open>TypeError\<close>s the engine raises, are
  parameters of the model: \<open>inherited v key\<close> is what \<open>v[key]\<close> gives when \<open>key\<close> is
  not an own property of \<open>v\<close> (\<open>Undefined\<close> when the chain has no such member).
\<close>

record host =
  inherited :: "json \<Rightarrow> string \<Rightarrow> js_value"
  message_null_property :: "string \<Rightarrow> string"
  message_null_keys :: string
  message_not_a_function :: "string \<Rightarrow> string"

text \<open>
  The array index a property key denotes: the key is the decimal numeral of the index.
\<close>

definition index_of :: "string \<Rightarrow> nat \<Rightarrow> nat option" where
  "index_of key n = List.find (\<lambda>i. digits i = key) [0..<n]"

text \<open>
  \<open>v[key]\<close> for a value that is not \<open>null\<close>: an own property first (a key of an object,
  an index or the length of an array or of a string), then the prototype chain.
\<close>

fun read :: "host \<Rightarrow> json \<Rightarrow> string \<Rightarrow> js_value" where
  "read h (JObj kvs) key =
     (case map_of kvs key of Some v \<Rightarrow> Data v | None \<Rightarrow> inherited h (JObj kvs) key)"
| "read h (JArr xs) key =
     (if key = ''length'' then Data (JNum (digits (length xs)))
      else (case index_of key (length xs) of
              Some i \<Rightarrow> Data (xs ! i)
            | None \<Rightarrow> inherited h (JArr xs) key))"
| "read h (JStr s) key =
     (if key = ''length'' then Data (JNum (digits (length s)))
      else (case index_of key (length s) of
              Some i \<Rightarrow> Data (JStr [s ! i])
            | None \<Rightarrow> inherited h (JStr s) key))"
| "read h v key = inherited h v key"

text \<open>\<open>v[key]\<close> for any value: reading a property of \<open>null\<close> raises a \<open>TypeError\<close>.\<close>

definition property :: "host \<Rightarrow> json \<Rightarrow> string \<Rightarrow> thrown + js_value" where
  "property h v key =
     (if v = JNull then Inl (Error_object (message_null_property h key))
      else Inr (read h v key))"

text \<open>
  \<open>Object.keys(v)\<close> for a value that is not \<open>null\<close>: the keys of an object, the indices
  of an array or of a string, nothing for a number or a boolean.
\<close>

fun own_keys :: "json \<Rightarrow> string list" where
  "own_keys (JObj kvs) = map fst kvs"
| "own_keys (JArr xs) = map digits [0..<length xs]"
| "own_keys (JStr s) = map digits [0..<length s]"
| "own_keys v = []"

text \<open>The number zero, as \<open>=== 0\<close> tests it.\<close>

definition is_zero :: "js_value \<Rightarrow> bool" where
  "is_zero v = (v = Data (JNum ''0''))"


section \<open>The component's state and properties\<close>

datatype export_format = Json | Csv

text \<open>
  The \<open>useState\<close> cells of \<open>ExportData\<close> that the export path reads or writes, and the
  property \<open>maxDocuments\<close>.
\<close>

record component =
  selectedTypes :: "string list"
  exportFormat :: export_format
  includeRefs :: bool
  refDepth :: int
  customQuery :: string
  useCustomQuery :: bool
  isExporting :: bool
  exportProgress :: nat
  message :: string
  dateFilter :: string
  fieldFilter :: string
  exportCount :: js_value
  filename :: string
  maxDocuments :: int



section \<open>buildReferenceExpansion\<close>

definition expansion :: string where
  \<open>expansion = ''\<newline>      "references": *[references(^._id)] {\<newline>        _id,\<newline>        _type,\<newline>        title,\<newline>        name,\<newline>        slug\<newline>      }''\<close>

function buildReferenceExpansion :: "int \<Rightarrow> string" where
  "buildReferenceExpansion depth =
     (if depth \<le> 0 then ''''
      else if depth > 1 then expansion @ '','' @ buildReferenceExpansion (depth - 1)
      else expansion)"
  by pat_completeness auto
termination
  by (relation "measure nat") auto

declare buildReferenceExpansion.simps [simp del]

text \<open>The key that opens every relation block, and the number of places where a text occurs.\<close>

definition relation_marker :: string where
  \<open>relation_marker = ''"references":''\<close>

fun count_occurrences :: "string \<Rightarrow> string \<Rightarrow> nat" where
  "count_occurrences m [] = 0"
| "count_occurrences m (c # cs) =
     (if prefix m (c # cs) then 1 else 0) + count_occurrences m cs"


section \<open>buildExportQuery\<close>

definition buildExportQuery :: "component \<Rightarrow> string" where
  \<open>buildExportQuery c =
     (if useCustomQuery c \<and> trim (customQuery c) \<noteq> [] then customQuery c
      else
        let query = ''*['';
            conditions = [];
            conditions =
              (if length (selectedTypes c) > 0
               then conditions @
                      [''_type in ['' @
                         join '', '' (map (\<lambda>t. ''"'' @ t @ ''"'') (selectedTypes c)) @ '']'']
               else conditions);
            conditions =
              (if trim (dateFilter c) \<noteq> []
               then conditions @
                      [''dateTime(_createdAt) >= dateTime("'' @ dateFilter c @ ''")'']
               else conditions);
            conditions =
              (if trim (fieldFilter c) \<noteq> []
               then (let fields =
                           filter (\<lambda>f. f \<noteq> [])
                             (map trim (split_str (CHR '','') (fieldFilter c)))
                     in if length fields > 0
                        then conditions @
                               [''('' @
                                  join '' || '' (map (\<lambda>field. ''defined('' @ field @ '')'') fields)
                                  @ '')'']
                        else conditions)
               else conditions);
            query = (if length conditions > 0 then query @ join '' && '' conditions else query);
            query = query @ ''][0...'' @ String_int (maxDocuments c) @ '']'';
            query =
              (if includeRefs c \<and> refDepth c > 0
               then query @ '' {\<newline>        ...,\<newline>        '' @
                      buildReferenceExpansion (refDepth c) @ ''\<newline>      }''
               else query)
        in query)\<close>



section \<open>Serialisation\<close>

definition hex_digit :: "nat \<Rightarrow> char" where
  "hex_digit d = ''0123456789abcdef'' ! d"

text \<open>The escapes of \<open>JSON.stringify\<close> inside a string.\<close>

definition json_escape_char :: "char \<Rightarrow> string" where
  "json_escape_char c =
     (if c = CHR 0x22 then [CHR 0x5C, CHR 0x22]
      else if c = CHR 0x5C then [CHR 0x5C, CHR 0x5C]
      else if c = CHR 0x08 then [CHR 0x5C, CHR ''b'']
      else if c = CHR 0x0C then [CHR 0x5C, CHR ''f'']
      else if c = CHR 0x0A then [CHR 0x5C, CHR ''n'']
      else if c = CHR 0x0D then [CHR 0x5C, CHR ''r'']
      else if c = CHR 0x09 then [CHR 0x5C, CHR ''t'']
      else if (of_char c :: nat) < 32
        then [CHR 0x5C, CHR ''u'', CHR ''0'', CHR ''0'',
              hex_digit ((of_char c :: nat) div 16), hex_digit ((of_char c :: nat) mod 16)]
      else [c])"

definition quote_json :: "string \<Rightarrow> string" where
  "quote_json s = [CHR 0x22] @ concat (map json_escape_char s) @ [CHR 0x22]"

text \<open>
  \<open>JSON.stringify(value, null, gap)\<close> for JSON data; the second argument is the
  indentation reached so far. With an empty \<open>gap\<close> this is the one-line form
  \<open>JSON.stringify(value)\<close>.
\<close>

fun stringify :: "string \<Rightarrow> string \<Rightarrow> json \<Rightarrow> string" where
  "stringify gap ind JNull = ''null''"
| "stringify gap ind (JBool b) = (if b then ''true'' else ''false'')"
| "stringify gap ind (JNum n) = n"
| "stringify gap ind (JStr s) = quote_json s"
| "stringify gap ind (JArr xs) =
     (if xs = [] then ''[]''
      else if gap = []
        then ''['' @ join '','' (map (\<lambda>v. stringify gap (ind @ gap) v) xs) @ '']''
        else ''['' @ [CHR 0x0A] @ (ind @ gap) @
             join ('','' @ [CHR 0x0A] @ (ind @ gap)) (map (\<lambda>v. stringify gap (ind @ gap) v) xs) @
             [CHR 0x0A] @ ind @ '']'')"
| "stringify gap ind (JObj kvs) =
     (if kvs = [] then ''{}''
      else if gap = []
        then ''{'' @
             join '',''
               (map (\<lambda>kv. quote_json (fst kv) @ '':'' @ stringify gap (ind @ gap) (snd kv)) kvs) @
             ''}''
        else ''{'' @ [CHR 0x0A] @ (ind @ gap) @
             join ('','' @ [CHR 0x0A] @ (ind @ gap))
               (map (\<lambda>kv. quote_json (fst kv) @ '': '' @ stringify gap (ind @ gap) (snd kv)) kvs) @
             [CHR 0x0A] @ ind @ ''}'')"

text \<open>
  \<open>JSON.stringify(value)\<close> for what a property read can give; \<open>None\<close> is its result
  \<open>undefined\<close>, for \<open>undefined\<close> and for a function.
\<close>

fun JSON_stringify :: "js_value \<Rightarrow> string option" where
  "JSON_stringify Undefined = None"
| "JSON_stringify (Data j) = Some (stringify [] [] j)"
| "JSON_stringify (Function body) = None"
| "JSON_stringify (Host_object s j) = Some j"

definition JSON_stringify_2 :: "json \<Rightarrow> string" where
  "JSON_stringify_2 documents = stringify ''  '' [] documents"

text \<open>
  \<open>String(value)\<close>, also what a template literal inserts: a string is itself, an array
  is its elements joined by commas (\<open>null\<close> elements as nothing), any other object is
  \<open>[object Object]\<close>.
\<close>

fun String_json :: "json \<Rightarrow> string" where
  "String_json JNull = ''null''"
| "String_json (JBool b) = (if b then ''true'' else ''false'')"
| "String_json (JNum n) = n"
| "String_json (JStr s) = s"
| "String_json (JArr xs) = join '','' (map (\<lambda>v. if v = JNull then [] else String_json v) xs)"
| "String_json (JObj kvs) = ''[object Object]''"

fun String_value :: "js_value \<Rightarrow> string" where
  "String_value Undefined = ''undefined''"
| "String_value (Data j) = String_json j"
| "String_value (Function body) = body"
| "String_value (Host_object s j) = s"

fun string_of :: "js_value \<Rightarrow> string" where
  "string_of (Data (JStr s)) = s"
| "string_of v = []"


section \<open>convertToCSV\<close>

text \<open>\<open>allKeys.add(key)\<close> on a \<open>Set\<close>, which keeps insertion order.\<close>

definition add_key :: "string \<Rightarrow> string list \<Rightarrow> string list" where
  "add_key key allKeys = (if key \<in> set allKeys then allKeys else allKeys @ [key])"

text \<open>
  The body of the first \<open>forEach\<close>: \<open>Object.keys(doc)\<close> raises a \<open>TypeError\<close> for
  \<open>null\<close>; otherwise every key whose value passes the test is added.
\<close>

definition collect_keys :: "host \<Rightarrow> json \<Rightarrow> string list \<Rightarrow> thrown + string list" where
  "collect_keys h doc allKeys =
     (if doc = JNull then Inl (Error_object (message_null_keys h))
      else Inr (fold (\<lambda>key ks.
                        if typeof (read h doc key) \<noteq> T_object \<or> read h doc key = Data JNull
                        then add_key key ks else ks)
                     (own_keys doc) allKeys))"

fun collect_all :: "host \<Rightarrow> json list \<Rightarrow> string list \<Rightarrow> thrown + string list" where
  "collect_all h [] allKeys = Inr allKeys"
| "collect_all h (doc # docs) allKeys =
     (case collect_keys h doc allKeys of
        Inl e \<Rightarrow> Inl e
      | Inr ks \<Rightarrow> collect_all h docs ks)"

definition csv_headers :: "host \<Rightarrow> json list \<Rightarrow> thrown + string list" where
  "csv_headers h data = collect_all h data []"

text \<open>\<open>value.replace(/"/g, '""')\<close>.\<close>

definition double_quotes :: "string \<Rightarrow> string" where
  "double_quotes s = concat (map (\<lambda>ch. if ch = CHR 0x22 then [CHR 0x22, CHR 0x22] else [ch]) s)"

text \<open>
  The function mapped over the headers. A result \<open>undefined\<close> of \<open>JSON.stringify\<close> is
  joined as the empty text.
\<close>

definition csv_cell :: "js_value \<Rightarrow> string" where
  "csv_cell v =
     (if v = Data JNull \<or> v = Undefined then ''''
      else if typeof v = T_object
        then (case JSON_stringify v of None \<Rightarrow> '''' | Some t \<Rightarrow> t)
      else if typeof v = T_string \<and> CHR '','' \<in> set (string_of v)
        then [CHR 0x22] @ double_quotes (string_of v) @ [CHR 0x22]
      else String_value v)"

text \<open>
  The body of the second \<open>forEach\<close>: the row of one document, joined by commas. Reading a
  header from \<open>null\<close> raises a \<open>TypeError\<close>.
\<close>

definition csv_row :: "host \<Rightarrow> string list \<Rightarrow> json \<Rightarrow> thrown + string" where
  "csv_row h headers doc =
     (if doc = JNull \<and> headers \<noteq> []
      then Inl (Error_object (message_null_property h (hd headers)))
      else Inr (join '','' (map (\<lambda>header. csv_cell (read h doc header)) headers)))"

fun csv_rows :: "host \<Rightarrow> string list \<Rightarrow> json list \<Rightarrow> thrown + string list" where
  "csv_rows h headers [] = Inr []"
| "csv_rows h headers (doc # docs) =
     (case csv_row h headers doc of
        Inl e \<Rightarrow> Inl e
      | Inr row \<Rightarrow>
          (case csv_rows h headers docs of
             Inl e \<Rightarrow> Inl e
           | Inr rows \<Rightarrow> Inr (row # rows)))"

text \<open>
  \<open>convertToCSV(data)\<close> for whatever the query returned. \<open>data.length\<close> raises for
  \<open>null\<close>; among JSON values only an array has a \<open>forEach\<close> method, so for any other
  value of non-zero length the call \<open>data.forEach\<close> raises a \<open>TypeError\<close>.
\<close>

definition convertToCSV :: "host \<Rightarrow> json \<Rightarrow> thrown + string" where
  "convertToCSV h data =
     (case property h data ''length'' of
        Inl e \<Rightarrow> Inl e
      | Inr len \<Rightarrow>
          if is_zero len then Inr ''''
          else (case data of
                  JArr docs \<Rightarrow>
                    (case csv_headers h docs of
                       Inl e \<Rightarrow> Inl e
                     | Inr headers \<Rightarrow>
                         (case csv_rows h headers docs of
                            Inl e \<Rightarrow> Inl e
                          | Inr rows \<Rightarrow> Inr (join [CHR 0x0A] (join '','' headers # rows))))
                | _ \<Rightarrow> Inl (Error_object (message_not_a_function h ''data.forEach''))))"


section \<open>handleExport\<close>

text \<open>The handler reads \<open>error instanceof Error ? error.message : 'Export failed'\<close>.\<close>

definition error_message_of :: "thrown \<Rightarrow> string" where
  "error_message_of e = (case e of Error_object m \<Rightarrow> m | Other_thrown \<Rightarrow> ''Export failed'')"

text \<open>
  The calls a run makes, in order: the state setters, the console, the client, the
  download helper, the two callbacks, and \<open>setTimeout\<close> with the call it delays.
\<close>

datatype action =
    SetMessage string
  | SetIsExporting bool
  | SetExportProgress nat
  | SetExportCount js_value
  | ConsoleLog string
  | ConsoleError thrown
  | ClientFetch string
  | DownloadFile string string string
  | OnComplete js_value export_format string
  | OnError string
  | SetTimeout action nat

text \<open>
  The collaborators of a run. \<open>client.fetch(query)\<close> resolves with JSON data or rejects;
  \<open>downloadFile(content, filename, mimeType)\<close> returns or throws;
  \<open>new Date().toISOString()\<close> is the text of the current instant, or throws when the
  clock is out of range; the callbacks \<open>onComplete\<close> and \<open>onError\<close> are optional
  properties, and a supplied callback returns or throws.
\<close>

record environment =
  engine :: host
  client_fetch :: "string \<Rightarrow> thrown + json"
  downloadFile :: "string \<Rightarrow> string \<Rightarrow> string \<Rightarrow> thrown option"
  Date_toISOString :: "thrown + string"
  onComplete :: "(js_value \<Rightarrow> export_format \<Rightarrow> string \<Rightarrow> thrown option) option"
  onError :: "(string \<Rightarrow> thrown option) option"

datatype completion = Normal | Abrupt thrown

text \<open>\<open>split('T')[0]\<close>: the result of a split is never empty, so the first piece exists.\<close>

definition timestamp :: "environment \<Rightarrow> thrown + string" where
  "timestamp env =
     (case Date_toISOString env of
        Inl e \<Rightarrow> Inl e
      | Inr instant \<Rightarrow> Inr (hd (split_str (CHR ''T'') instant)))"

definition typeString :: "component \<Rightarrow> string" where
  "typeString c =
     (if length (selectedTypes c) > 0 then join ''-'' (selectedTypes c) else ''custom'')"

definition generatedFilename :: "component \<Rightarrow> string \<Rightarrow> string" where
  "generatedFilename c stamp =
     (if trim (filename c) \<noteq> [] then trim (filename c)
      else ''sanity-export-'' @ typeString c @ ''-'' @ stamp)"

definition content :: "environment \<Rightarrow> component \<Rightarrow> json \<Rightarrow> thrown + string" where
  "content env c documents =
     (if exportFormat c = Csv then convertToCSV (engine env) documents
      else Inr (JSON_stringify_2 documents))"

definition mimeType :: "component \<Rightarrow> string" where
  "mimeType c = (if exportFormat c = Csv then ''text/csv'' else ''application/json'')"

definition finalFilename :: "component \<Rightarrow> string \<Rightarrow> string" where
  "finalFilename c stamp =
     (if exportFormat c = Csv then generatedFilename c stamp @ ''.csv''
      else generatedFilename c stamp @ ''.json'')"

text \<open>\<open>onComplete?.(...)\<close> and \<open>onError?.(...)\<close>: the call made, and how it ended.\<close>

definition call_onComplete ::
  "environment \<Rightarrow> js_value \<Rightarrow> export_format \<Rightarrow> string \<Rightarrow> action list \<times> completion" where
  "call_onComplete env exported fmt name =
     (case onComplete env of
        None \<Rightarrow> ([], Normal)
      | Some callback \<Rightarrow>
          ([OnComplete exported fmt name],
           (case callback exported fmt name of None \<Rightarrow> Normal | Some e \<Rightarrow> Abrupt e)))"

definition call_onError :: "environment \<Rightarrow> string \<Rightarrow> action list \<times> completion" where
  "call_onError env errorMessage =
     (case onError env of
        None \<Rightarrow> ([], Normal)
      | Some callback \<Rightarrow>
          ([OnError errorMessage],
           (case callback errorMessage of None \<Rightarrow> Normal | Some e \<Rightarrow> Abrupt e)))"

text \<open>
  The body of the \<open>try\<close> block: the calls made, and how the block was left. It is left
  abruptly where the fetch rejects, where \<open>documents.length\<close> is read from \<open>null\<close>, where
  the date cannot be printed, where the conversion raises, where the download helper
  throws, and where the completion callback throws.
\<close>

definition try_block :: "environment \<Rightarrow> component \<Rightarrow> action list \<times> completion" where
  "try_block env c =
     (let query = buildExportQuery c;
          acts = [ConsoleLog (''Executing export query: '' @ query),
                  SetMessage ''Fetching documents...'',
                  SetExportProgress 25,
                  ClientFetch query]
      in case client_fetch env query of
           Inl e \<Rightarrow> (acts, Abrupt e)
         | Inr documents \<Rightarrow>
         (case property (engine env) documents ''length'' of
            Inl e \<Rightarrow> (acts, Abrupt e)
          | Inr len \<Rightarrow>
          (let acts = acts @ [SetExportCount len, SetExportProgress 50]
           in if is_zero len
              then (acts @ [SetMessage ''No documents found matching the criteria''], Normal)
              else
              (let acts = acts @
                     [SetMessage (''Processing '' @ String_value len @ '' documents...''),
                      SetExportProgress 75]
               in case timestamp env of
                    Inl e \<Rightarrow> (acts, Abrupt e)
                  | Inr stamp \<Rightarrow>
                  (case content env c documents of
                     Inl e \<Rightarrow> (acts, Abrupt e)
                   | Inr body \<Rightarrow>
                   (let acts = acts @
                          [SetMessage ''Downloading file...'',
                           SetExportProgress 90,
                           DownloadFile body (finalFilename c stamp) (mimeType c)]
                    in case downloadFile env body (finalFilename c stamp) (mimeType c) of
                         Some e \<Rightarrow> (acts, Abrupt e)
                       | None \<Rightarrow>
                           (acts @
                            [SetExportProgress 100,
                             SetMessage (''Successfully exported '' @ String_value len @
                                         '' documents as '' @ finalFilename c stamp)] @
                            fst (call_onComplete env len (exportFormat c)
                                   (finalFilename c stamp)),
                            snd (call_onComplete env len (exportFormat c)
                                   (finalFilename c stamp)))))))))"

text \<open>
  The \<open>catch\<close> clause, which ends as its call of the error callback ends, and the
  \<open>finally\<close> clause.
\<close>

definition catch_block :: "environment \<Rightarrow> thrown \<Rightarrow> action list \<times> completion" where
  "catch_block env e =
     ([ConsoleError e, SetMessage (''Export error: '' @ error_message_of e)] @
      fst (call_onError env (error_message_of e)),
      snd (call_onError env (error_message_of e)))"

definition finally_block :: "action list" where
  "finally_block = [SetIsExporting False, SetTimeout (SetExportProgress 0) 2000]"

text \<open>
  \<open>handleExport\<close>: the calls of a run, and whether the promise it returns is fulfilled
  (\<open>Normal\<close>) or rejected with what the \<open>catch\<close> clause let escape.
\<close>

definition handleExport :: "environment \<Rightarrow> component \<Rightarrow> action list \<times> completion" where
  "handleExport env c =
     (if length (selectedTypes c) = 0 \<and> \<not> useCustomQuery c
      then ([SetMessage ''Please select at least one document type or use a custom query''],
            Normal)
      else
        (let before = [SetIsExporting True, SetMessage ''Preparing export...'', SetExportProgress 0];
             tried = try_block env c;
             caught = (case snd tried of
                         Normal \<Rightarrow> ([], Normal)
                       | Abrupt e \<Rightarrow> catch_block env e)
         in (before @ fst tried @ fst caught @ finally_block, snd caught)))"

text \<open>The state after the setters of a run, and after the delayed calls have run too.\<close>

fun apply_action :: "action \<Rightarrow> component \<Rightarrow> component" where
  "apply_action (SetMessage m) c = c\<lparr>message := m\<rparr>"
| "apply_action (SetIsExporting b) c = c\<lparr>isExporting := b\<rparr>"
| "apply_action (SetExportProgress p) c = c\<lparr>exportProgress := p\<rparr>"
| "apply_action (SetExportCount n) c = c\<lparr>exportCount := n\<rparr>"
| "apply_action a c = c"

fun delayed :: "action list \<Rightarrow> action list" where
  "delayed [] = []"
| "delayed (SetTimeout a ms # as) = a # delayed as"
| "delayed (a # as) = delayed as"

definition state_after :: "component \<Rightarrow> action list \<Rightarrow> component" where
  "state_after c as = fold apply_action as c"

definition state_settled :: "component \<Rightarrow> action list \<Rightarrow> component" where
  "state_settled c as = fold apply_action (delayed as) (state_after c as)"

fun is_OnComplete :: "action \<Rightarrow> bool" where
  "is_OnComplete (OnComplete n f name) = True"
| "is_OnComplete a = False"

fun is_OnError :: "action \<Rightarrow> bool" where
  "is_OnError (OnError m) = True"
| "is_OnError a = False"

fun is_side_effect :: "action \<Rightarrow> bool" where
  "is_side_effect (ClientFetch q) = True"
| "is_side_effect (DownloadFile body name mime) = True"
| "is_side_effect a = False"


section \<open>The shape of a built query, in the words of the specification\<close>

text \<open>
  These definitions restate section 4.1 of the specification; the theorems below compare
  them with \<open>buildExportQuery\<close>.
\<close>

definition override_active :: "component \<Rightarrow> bool" where
  "override_active c = (useCustomQuery c \<and> trim (customQuery c) \<noteq> [])"

definition range_clause :: "int \<Rightarrow> string" where
  "range_clause n = ''][0...'' @ String_int n @ '']''"

definition projection :: "component \<Rightarrow> string" where
  "projection c =
     (if includeRefs c \<and> refDepth c > 0
      then '' {\<newline>        ...,\<newline>        '' @ buildReferenceExpansion (refDepth c) @
           ''\<newline>      }''
      else '''')"

definition type_condition :: "string list \<Rightarrow> string" where
  \<open>type_condition ts = ''_type in ['' @ join '', '' (map (\<lambda>t. ''"'' @ t @ ''"'') ts) @ '']''\<close>

definition date_condition :: "string \<Rightarrow> string" where
  \<open>date_condition d = ''dateTime(_createdAt) >= dateTime("'' @ d @ ''")''\<close>

definition field_names :: "string \<Rightarrow> string list" where
  "field_names s = filter (\<lambda>f. f \<noteq> []) (map trim (split_str (CHR '','') s))"

definition field_condition :: "string list \<Rightarrow> string" where
  "field_condition fs = ''('' @ join '' || '' (map (\<lambda>f. ''defined('' @ f @ '')'') fs) @ '')''"

definition spec_conditions :: "component \<Rightarrow> string list" where
  "spec_conditions c =
     (if selectedTypes c \<noteq> [] then [type_condition (selectedTypes c)] else []) @
     (if trim (dateFilter c) \<noteq> [] then [date_condition (dateFilter c)] else []) @
     (if field_names (fieldFilter c) \<noteq> []
      then [field_condition (field_names (fieldFilter c))] else [])"



section \<open>Concrete inputs\<close>

text \<open>The component as it is after mounting with default properties and no type selected.\<close>

definition initial :: component where
  "initial =
     \<lparr>selectedTypes = [], exportFormat = Json, includeRefs = False, refDepth = 2,
      customQuery = '''', useCustomQuery = False, isExporting = False, exportProgress = 0,
      message = '''', dateFilter = '''', fieldFilter = '''', exportCount = Data (JNum ''0''),
      filename = '''', maxDocuments = 1000\<rparr>"

text \<open>Scenario 2 of the specification: two types and a date filter.\<close>

definition scenario2 :: component where
  "scenario2 = initial\<lparr>selectedTypes := [''post'', ''page''], dateFilter := ''2023-01-01''\<rparr>"

text \<open>A custom query with the type \<open>post\<close> still selected, as it is after mounting.\<close>

definition custom_request :: component where
  \<open>custom_request =
     initial\<lparr>selectedTypes := [''post''], useCustomQuery := True,
             customQuery := ''*[_type == "post"]''\<rparr>\<close>


section \<open>The tabular header and cells, in the words of the specification\<close>

text \<open>A record is an object: its field names with their values.\<close>

type_synonym document = "(string \<times> json) list"

text \<open>A nested structure is an object or an array; \<open>null\<close> and the scalars are not.\<close>

fun nested :: "json \<Rightarrow> bool" where
  "nested (JArr xs) = True"
| "nested (JObj kvs) = True"
| "nested v = False"

text \<open>The field names of one document whose value is not nested, in the document's order.\<close>

definition includable_keys :: "document \<Rightarrow> string list" where
  "includable_keys doc = map fst (filter (\<lambda>kv. \<not> nested (snd kv)) doc)"

text \<open>A list without its repetitions, every element at the place where it came first.\<close>

definition first_seen :: "'a list \<Rightarrow> 'a list" where
  "first_seen xs = rev (remdups (rev xs))"

text \<open>The comma-escaping rule: internal quote characters doubled, the whole in quotes.\<close>

fun doubled :: "string \<Rightarrow> string" where
  "doubled [] = []"
| "doubled (ch # s) = (if ch = CHR 0x22 then ch # ch # doubled s else ch # doubled s)"

definition quote_wrapped :: "string \<Rightarrow> string" where
  "quote_wrapped s = CHR 0x22 # doubled s @ [CHR 0x22]"

text \<open>
  The text of a value before the rule: nothing for a missing or \<open>null\<close> value, the one-line
  JSON text for a nested structure, the plain text of a scalar. A member found on the
  prototype chain has the text the host gives it.
\<close>

fun plain_text :: "js_value \<Rightarrow> string" where
  "plain_text Undefined = ''''"
| "plain_text (Data JNull) = ''''"
| "plain_text (Data (JArr xs)) = stringify [] [] (JArr xs)"
| "plain_text (Data (JObj kvs)) = stringify [] [] (JObj kvs)"
| "plain_text (Data (JStr s)) = s"
| "plain_text (Data (JNum n)) = n"
| "plain_text (Data (JBool b)) = (if b then ''true'' else ''false'')"
| "plain_text (Function body) = body"
| "plain_text (Host_object s j) = j"

fun comma_string :: "js_value \<Rightarrow> bool" where
  "comma_string (Data (JStr s)) = (CHR '','' \<in> set s)"
| "comma_string v = False"

text \<open>A cell: the rule applied to the comma-containing strings and to nothing else.\<close>

definition cell_text :: "js_value \<Rightarrow> string" where
  "cell_text v = (if comma_string v then quote_wrapped (plain_text v) else plain_text v)"

text \<open>The keys one record that is not \<open>null\<close> adds to the header names.\<close>

definition collect_plain :: "host \<Rightarrow> json \<Rightarrow> string list \<Rightarrow> string list" where
  "collect_plain h doc allKeys =
     fold (\<lambda>key ks.
             if typeof (read h doc key) \<noteq> T_object \<or> read h doc key = Data JNull
             then add_key key ks else ks)
          (own_keys doc) allKeys"

text \<open>
  A host as far as plain objects go: the members every object inherits from
  \<open>Object.prototype\<close>, with the texts and messages of the V8 engine. It is used below
  with records that are objects.
\<close>

definition native_function :: "string \<Rightarrow> js_value" where
  "native_function name = Function (''function '' @ name @ ''() { [native code] }'')"

definition Object_prototype :: "string \<Rightarrow> js_value" where
  "Object_prototype key =
     (if key = ''constructor'' then native_function ''Object''
      else if key \<in> set [''toString'', ''toLocaleString'', ''valueOf'', ''hasOwnProperty'',
                           ''isPrototypeOf'', ''propertyIsEnumerable'', ''__defineGetter__'',
                           ''__defineSetter__'', ''__lookupGetter__'', ''__lookupSetter__'']
        then native_function key
      else if key = ''__proto__'' then Host_object ''[object Object]'' ''{}''
      else Undefined)"

definition browser :: host where
  "browser =
     \<lparr>inherited = (\<lambda>v key. Object_prototype key),
      message_null_property =
        (\<lambda>key. ''Cannot read properties of null (reading '' @ [CHR 0x27] @ key @ [CHR 0x27] @ '')''),
      message_null_keys = ''Cannot convert undefined or null to object'',
      message_not_a_function = (\<lambda>name. name @ '' is not a function'')\<rparr>"

text \<open>Scenario 3 of the specification.\<close>

definition scenario3 :: "document list" where
  "scenario3 =
     [[(''_id'', JStr ''a''), (''_type'', JStr ''post''), (''title'', JStr ''Hi'')],
      [(''_id'', JStr ''b''), (''_type'', JStr ''post''), (''tags'', JArr [JStr ''x''])]]"

text \<open>
  One record with a comma-containing string, a fractional number, a string in quotes and
  an object, followed by a record without those fields.
\<close>

definition mixed_document :: document where
  \<open>mixed_document =
     [(''title'', JStr ''a, "b"''), (''n'', JNum ''1.5''), (''plain'', JStr ''"q"''),
      (''slug'', JObj [(''current'', JStr ''x,y'')])]\<close>

definition mixed_table :: "json list" where
  "mixed_table = [JObj mixed_document, JObj [(''slug'', JStr ''s'')]]"

text \<open>A record with a field named like an inherited member, and a record without it.\<close>

definition shadowing_table :: "json list" where
  "shadowing_table =
     [JObj [(''constructor'', JStr ''x''), (''title'', JStr ''a,b'')], JObj []]"


section \<open>Runs and output names, in the words of the specification\<close>

text \<open>A run passes the entry guard when a type is selected or the custom-query flag is on.\<close>

definition passes_validation :: "component \<Rightarrow> bool" where
  "passes_validation c = (selectedTypes c \<noteq> [] \<or> useCustomQuery c)"

text \<open>The calls of every run that passes the guard, up to and including the fetch.\<close>

definition started :: "component \<Rightarrow> action list" where
  "started c =
     [SetIsExporting True, SetMessage ''Preparing export...'', SetExportProgress 0,
      ConsoleLog (''Executing export query: '' @ buildExportQuery c),
      SetMessage ''Fetching documents...'', SetExportProgress 25,
      ClientFetch (buildExportQuery c)]"

text \<open>The calls that follow when the result has a length that is not zero.\<close>

definition counted :: "js_value \<Rightarrow> action list" where
  "counted len =
     [SetExportCount len, SetExportProgress 50,
      SetMessage (''Processing '' @ String_value len @ '' documents...''),
      SetExportProgress 75]"

text \<open>The calls from the end of the conversion to the call of the download helper.\<close>

definition emitted :: "component \<Rightarrow> string \<Rightarrow> string \<Rightarrow> action list" where
  "emitted c stamp body =
     [SetMessage ''Downloading file...'', SetExportProgress 90,
      DownloadFile body (finalFilename c stamp) (mimeType c)]"

text \<open>The fetch resolved with \<open>documents\<close>, whose length reads \<open>len\<close> and is not zero.\<close>

definition fetched :: "environment \<Rightarrow> component \<Rightarrow> json \<Rightarrow> js_value \<Rightarrow> bool" where
  "fetched env c documents len =
     (client_fetch env (buildExportQuery c) = Inr documents \<and>
      property (engine env) documents ''length'' = Inr len \<and> \<not> is_zero len)"

text \<open>
  The failures of the steps: the fetch rejects; the length of the result cannot be read;
  the date for the name cannot be printed; the conversion raises; the download helper
  throws.
\<close>

definition fetch_fails :: "environment \<Rightarrow> component \<Rightarrow> thrown \<Rightarrow> bool" where
  "fetch_fails env c e = (client_fetch env (buildExportQuery c) = Inl e)"

definition count_fails :: "environment \<Rightarrow> component \<Rightarrow> json \<Rightarrow> thrown \<Rightarrow> bool" where
  "count_fails env c documents e =
     (client_fetch env (buildExportQuery c) = Inr documents \<and>
      property (engine env) documents ''length'' = Inl e)"

definition naming_fails ::
  "environment \<Rightarrow> component \<Rightarrow> json \<Rightarrow> js_value \<Rightarrow> thrown \<Rightarrow> bool" where
  "naming_fails env c documents len e =
     (fetched env c documents len \<and> timestamp env = Inl e)"

definition conversion_fails ::
  "environment \<Rightarrow> component \<Rightarrow> json \<Rightarrow> js_value \<Rightarrow> string \<Rightarrow> thrown \<Rightarrow> bool" where
  "conversion_fails env c documents len stamp e =
     (fetched env c documents len \<and> timestamp env = Inr stamp \<and>
      content env c documents = Inl e)"

definition download_fails ::
  "environment \<Rightarrow> component \<Rightarrow> json \<Rightarrow> js_value \<Rightarrow> string \<Rightarrow> string \<Rightarrow> thrown \<Rightarrow> bool"
  where
  "download_fails env c documents len stamp body e =
     (fetched env c documents len \<and> timestamp env = Inr stamp \<and>
      content env c documents = Inr body \<and>
      downloadFile env body (finalFilename c stamp) (mimeType c) = Some e)"

text \<open>
  A successful run: the guard is passed, every step returns, and the completion callback,
  when there is one, returns too.
\<close>

definition run_succeeds ::
  "environment \<Rightarrow> component \<Rightarrow> json \<Rightarrow> js_value \<Rightarrow> string \<Rightarrow> string \<Rightarrow> bool" where
  "run_succeeds env c documents len instant body =
     (passes_validation c \<and> fetched env c documents len \<and>
      Date_toISOString env = Inr instant \<and>
      content env c documents = Inr body \<and>
      downloadFile env body (finalFilename c (hd (split_str (CHR ''T'') instant)))
        (mimeType c) = None \<and>
      snd (call_onComplete env len (exportFormat c)
             (finalFilename c (hd (split_str (CHR ''T'') instant)))) = Normal)"

definition extension :: "export_format \<Rightarrow> string" where
  "extension f = (case f of Json \<Rightarrow> ''.json'' | Csv \<Rightarrow> ''.csv'')"

text \<open>The date of an ISO instant: the text before the \<open>T\<close>.\<close>

definition iso_date :: "string \<Rightarrow> string" where
  "iso_date instant = takeWhile (\<lambda>ch. ch \<noteq> CHR ''T'') instant"

text \<open>
  The output name: the user's name, trimmed, when it is not blank; otherwise the generated
  name, with the placeholder for the types when the custom-query flag is on.
\<close>

definition spec_output_name :: "component \<Rightarrow> string \<Rightarrow> string" where
  "spec_output_name c instant =
     (if trim (filename c) \<noteq> [] then trim (filename c) @ extension (exportFormat c)
      else if useCustomQuery c
        then ''sanity-export-custom-'' @ iso_date instant @ extension (exportFormat c)
      else ''sanity-export-'' @ join ''-'' (selectedTypes c) @ ''-'' @ iso_date instant @
           extension (exportFormat c))"

text \<open>
  The case the naming rule is silent about: a generated name for a run with the
  custom-query flag on while types are still selected.
\<close>

definition types_left_selected :: "component \<Rightarrow> bool" where
  "types_left_selected c =
     (trim (filename c) = [] \<and> useCustomQuery c \<and> selectedTypes c \<noteq> [])"

text \<open>Collaborators for the concrete runs.\<close>

definition one_post :: json where
  "one_post = JArr [JObj [(''_id'', JStr ''a''), (''_type'', JStr ''post''), (''title'', JStr ''Hi'')]]"

definition store :: "json \<Rightarrow> environment" where
  "store documents =
     \<lparr>engine = browser,
      client_fetch = (\<lambda>query. Inr documents),
      downloadFile = (\<lambda>body name mime. None),
      Date_toISOString = Inr ''2024-01-15T10:30:00.000Z'',
      onComplete = Some (\<lambda>exported fmt name. None),
      onError = Some (\<lambda>errorMessage. None)\<rparr>"

definition unreachable_store :: environment where
  "unreachable_store =
     (store (JArr []))\<lparr>client_fetch := (\<lambda>query. Inl (Error_object ''Network error''))\<rparr>"

definition blocked_download :: environment where
  "blocked_download = (store one_post)\<lparr>downloadFile := (\<lambda>body name mime. Some Other_thrown)\<rparr>"

definition stopped_clock :: environment where
  "stopped_clock =
     (store one_post)\<lparr>Date_toISOString := Inl (Error_object ''Invalid time value'')\<rparr>"

definition angry_listener :: environment where
  "angry_listener =
     unreachable_store\<lparr>onError := Some (\<lambda>errorMessage. Some (Error_object ''listener failed''))\<rparr>"

text \<open>Scenario 1 of the specification: the type \<open>post\<close> and nothing else.\<close>

definition scenario1 :: component where
  "scenario1 = initial\<lparr>selectedTypes := [''post'']\<rparr>"


section \<open>Relation expansion (C8)\<close>

lemma count_expansion:
  "count_occurrences relation_marker (expansion @ rest) = Suc (count_occurrences relation_marker rest)"
  by (simp add: relation_marker_def expansion_def)

lemma count_comma:
  "count_occurrences relation_marker (CHR '','' # rest) = count_occurrences relation_marker rest"
  by (simp add: relation_marker_def)

lemma expand_nonpos: "d \<le> 0 \<Longrightarrow> buildReferenceExpansion d = []"
  by (subst buildReferenceExpansion.simps) simp

lemma expand_one: "buildReferenceExpansion 1 = expansion"
  by (subst buildReferenceExpansion.simps) simp

lemma expand_step:
  "1 < d \<Longrightarrow> buildReferenceExpansion d = expansion @ '','' @ buildReferenceExpansion (d - 1)"
  by (subst buildReferenceExpansion.simps) simp

lemma count_expand_pos:
  "count_occurrences relation_marker (buildReferenceExpansion (1 + int n)) = Suc n"
proof (induction n)
  case 0
  show ?case using count_expansion [of "[]"] by (simp add: expand_one)
next
  case (Suc n)
  have "buildReferenceExpansion (1 + int (Suc n)) =
          expansion @ '','' @ buildReferenceExpansion (1 + int n)"
    using expand_step [of "1 + int (Suc n)"] by simp
  then have "count_occurrences relation_marker (buildReferenceExpansion (1 + int (Suc n))) =
          Suc (count_occurrences relation_marker (buildReferenceExpansion (1 + int n)))"
    by (simp only: count_expansion append_Cons append_Nil count_comma)
  then show ?case
    using Suc.IH by simp
qed

text \<open>
  C8. For every integer depth \<open>d\<close>: \<open>buildReferenceExpansion d\<close> is the empty string when
  \<open>d \<le> 0\<close>; when \<open>d \<ge> 0\<close> the key that opens a relation block occurs in it exactly
  \<open>d\<close> times; and when \<open>d > 1\<close> it is the single fragment, a comma, and the expansion
  for \<open>d - 1\<close>.
\<close>

theorem expand_spec:
  "(d \<le> 0 \<longrightarrow> buildReferenceExpansion d = '''') \<and>
   (0 \<le> d \<longrightarrow> count_occurrences relation_marker (buildReferenceExpansion d) = nat d) \<and>
   (1 < d \<longrightarrow> buildReferenceExpansion d = expansion @ '','' @ buildReferenceExpansion (d - 1))"
proof (intro conjI impI)
  assume "d \<le> 0" then show "buildReferenceExpansion d = ''''" by (rule expand_nonpos)
next
  assume nonneg: "0 \<le> d"
  show "count_occurrences relation_marker (buildReferenceExpansion d) = nat d"
  proof (cases "d = 0")
    case True
    then show ?thesis by (simp add: expand_nonpos)
  next
    case False
    with nonneg have "d = 1 + int (nat (d - 1))" by simp
    then show ?thesis
      using count_expand_pos [of "nat (d - 1)"] nonneg False by simp
  qed
next
  assume "1 < d"
  then show "buildReferenceExpansion d = expansion @ '','' @ buildReferenceExpansion (d - 1)"
    by (rule expand_step)
qed

theorem expand_spec_witness:
  "(0::int) \<le> 0 \<and> buildReferenceExpansion 0 = '''' \<and>
   (0::int) \<le> 2 \<and> count_occurrences relation_marker (buildReferenceExpansion 2) = nat 2 \<and>
   (1::int) < 2 \<and> buildReferenceExpansion 2 = expansion @ '','' @ buildReferenceExpansion (2 - 1)"
proof -
  have a: "buildReferenceExpansion 0 = ''''"
    using expand_spec [of 0, THEN conjunct1] by simp
  have b: "count_occurrences relation_marker (buildReferenceExpansion 2) = nat 2"
    using expand_spec [of 2, THEN conjunct2, THEN conjunct1] by simp
  have c: "buildReferenceExpansion 2 = expansion @ '','' @ buildReferenceExpansion (2 - 1)"
    using expand_spec [of 2, THEN conjunct2, THEN conjunct2] by simp
  show ?thesis using a b c by (simp only: simp_thms) simp
qed



section \<open>Query building (C3, C4, C7)\<close>

lemma trim_empty_iff: "trim s = [] \<longleftrightarrow> (\<forall>c \<in> set s. is_space c)"
proof
  assume "trim s = []"
  then have a: "\<forall>c \<in> set (dropWhile is_space s). is_space c"
    by (simp add: trim_def dropWhile_eq_Nil_conv)
  have "dropWhile is_space s = []"
  proof (rule ccontr)
    assume ne: "dropWhile is_space s \<noteq> []"
    then have "\<not> is_space (hd (dropWhile is_space s))" by (rule hd_dropWhile)
    moreover have "hd (dropWhile is_space s) \<in> set (dropWhile is_space s)" using ne by simp
    ultimately show False using a by blast
  qed
  then show "\<forall>c \<in> set s. is_space c" by (simp add: dropWhile_eq_Nil_conv)
next
  assume "\<forall>c \<in> set s. is_space c"
  then show "trim s = []" by (auto simp: trim_def dest: set_dropWhileD)
qed

lemma split_str_chars: "w \<in> set (split_str sep s) \<Longrightarrow> x \<in> set w \<Longrightarrow> x \<in> set s"
proof (induction s arbitrary: w)
  case Nil
  then show ?case by simp
next
  case (Cons c cs)
  show ?case
  proof (cases "c = sep")
    case True
    with Cons.prems have "w = [] \<or> w \<in> set (split_str sep cs)" by simp
    with Cons.prems(2) Cons.IH show ?thesis by auto
  next
    case False
    show ?thesis
    proof (cases "split_str sep cs")
      case Nil
      with False Cons.prems show ?thesis by simp
    next
      case (Cons v vs)
      with False Cons.prems(1) have "w = c # v \<or> w \<in> set vs" by simp
      then show ?thesis
      proof
        assume "w = c # v"
        with Cons.prems(2) have "x = c \<or> x \<in> set v" by simp
        moreover have "v \<in> set (split_str sep cs)" using Cons by simp
        ultimately show ?thesis using Cons.IH by auto
      next
        assume "w \<in> set vs"
        then have "w \<in> set (split_str sep cs)" using Cons by simp
        with Cons.prems(2) Cons.IH show ?thesis by auto
      qed
    qed
  qed
qed

lemma field_names_blank: "trim s = [] \<Longrightarrow> field_names s = []"
proof -
  assume b: "trim s = []"
  have "\<And>w. w \<in> set (split_str (CHR '','') s) \<Longrightarrow> trim w = []"
  proof -
    fix w assume "w \<in> set (split_str (CHR '','') s)"
    then have "\<And>x. x \<in> set w \<Longrightarrow> x \<in> set s" by (rule split_str_chars)
    then show "trim w = []" using b by (auto simp: trim_empty_iff)
  qed
  then show ?thesis by (auto simp: field_names_def filter_empty_conv)
qed

text \<open>The three pushes onto \<open>conditions\<close> give the list the specification describes.\<close>

lemma build_custom: "override_active c \<Longrightarrow> buildExportQuery c = customQuery c"
  by (simp add: buildExportQuery_def override_active_def)

lemma build_composed:
  assumes "\<not> override_active c"
  shows "buildExportQuery c =
     ''*['' @ join '' && '' (spec_conditions c) @ range_clause (maxDocuments c) @ projection c"
proof -
  from assms have nc: "\<not> (useCustomQuery c \<and> trim (customQuery c) \<noteq> [])"
    by (simp add: override_active_def)
  have fn: "trim (fieldFilter c) = [] \<Longrightarrow> field_names (fieldFilter c) = []"
    by (rule field_names_blank)
  have third:
    "(if trim (fieldFilter c) \<noteq> []
      then (let fields = filter (\<lambda>f. f \<noteq> []) (map trim (split_str (CHR '','') (fieldFilter c)))
            in if length fields > 0
               then cs @ [''('' @ join '' || '' (map (\<lambda>field. ''defined('' @ field @ '')'') fields)
                          @ '')'']
               else cs)
      else cs) =
     cs @ (if field_names (fieldFilter c) \<noteq> []
           then [field_condition (field_names (fieldFilter c))] else [])" for cs
    using fn by (simp add: field_names_def [symmetric] field_condition_def Let_def)
  have conds: "buildExportQuery c =
     (let conditions = spec_conditions c;
          query = (if length conditions > 0 then ''*['' @ join '' && '' conditions else ''*['')
      in query @ range_clause (maxDocuments c) @ projection c)"
    unfolding buildExportQuery_def if_not_P [OF nc] third
    by (simp add: spec_conditions_def range_clause_def projection_def type_condition_def
          date_condition_def Let_def)
  show ?thesis
    unfolding conds by (cases "spec_conditions c") (simp_all add: Let_def)
qed

text \<open>Evaluations used at the concrete inputs.\<close>

lemma trim_custom: \<open>trim ''*[_type == "post"]'' = ''*[_type == "post"]''\<close>
  by (simp add: trim_def is_space_def)

lemma digits_1000: "String_int 1000 = ''1000''"
  by (simp add: String_int_def digits.simps digit_char_def)

lemma trim_nil: "trim [] = []"
  by (simp add: trim_def)

lemma trim_date: "trim ''2023-01-01'' = ''2023-01-01''"
  by (simp add: trim_def is_space_def)

text \<open>
  C4. When the custom-query flag is set and the custom query is not blank,
  \<open>buildExportQuery\<close> returns the custom query unchanged, and no other field matters:
  any component with the flag set and the same custom query gets the same result.
\<close>

theorem custom_query_verbatim:
  assumes "useCustomQuery c" and "trim (customQuery c) \<noteq> []"
  shows "buildExportQuery c = customQuery c \<and>
         (useCustomQuery c' \<and> customQuery c' = customQuery c \<longrightarrow>
            buildExportQuery c' = buildExportQuery c)"
  using assms by (simp add: buildExportQuery_def)

theorem custom_query_verbatim_witness:
  \<open>useCustomQuery custom_request \<and> trim (customQuery custom_request) \<noteq> [] \<and>
   buildExportQuery custom_request = ''*[_type == "post"]'' \<and>
   useCustomQuery (custom_request\<lparr>selectedTypes := [], dateFilter := ''2023-01-01'',
      fieldFilter := ''title'', maxDocuments := 5, includeRefs := True, refDepth := 3\<rparr>) \<and>
   buildExportQuery (custom_request\<lparr>selectedTypes := [], dateFilter := ''2023-01-01'',
      fieldFilter := ''title'', maxDocuments := 5, includeRefs := True, refDepth := 3\<rparr>) =
     ''*[_type == "post"]''\<close>
  using custom_query_verbatim [of custom_request
      "custom_request\<lparr>selectedTypes := [], dateFilter := ''2023-01-01'',
      fieldFilter := ''title'', maxDocuments := 5, includeRefs := True, refDepth := 3\<rparr>"]
  by (simp add: custom_request_def initial_def trim_custom)

text \<open>
  C7. When the override is not active, the query is \<open>*[\<close>, the conditions joined by
  \<open>&&\<close>, the range clause and the optional projection, where the conditions are, in
  this order, the type membership (only for a non-empty type list), the creation-date
  lower bound (only for a non-blank date filter) and the disjunction of \<open>defined(f)\<close> over
  the comma-split, trimmed, non-empty field names (only when there is one). With no
  condition the filter is empty, which selects every document.
\<close>

theorem conditions_conjunction:
  assumes "\<not> override_active c"
  shows "buildExportQuery c =
           ''*['' @ join '' && '' (spec_conditions c) @ range_clause (maxDocuments c) @
           projection c \<and>
         (spec_conditions c = [] \<longrightarrow>
            buildExportQuery c = ''*['' @ range_clause (maxDocuments c) @ projection c)"
  using build_composed [OF assms] by simp

theorem conditions_conjunction_witness:
  \<open>\<not> override_active scenario2 \<and>
   buildExportQuery scenario2 =
     ''*[_type in ["post", "page"] && dateTime(_createdAt) >= dateTime("2023-01-01")][0...1000]'' \<and>
   \<not> override_active (initial\<lparr>useCustomQuery := True\<rparr>) \<and>
   spec_conditions (initial\<lparr>useCustomQuery := True\<rparr>) = [] \<and>
   buildExportQuery (initial\<lparr>useCustomQuery := True\<rparr>) = ''*[][0...1000]''\<close>
  using conditions_conjunction [of scenario2]
    conditions_conjunction [of "initial\<lparr>useCustomQuery := True\<rparr>"]
  by (simp add: override_active_def scenario2_def initial_def spec_conditions_def
        type_condition_def date_condition_def field_names_def range_clause_def projection_def
        digits_1000 trim_date trim_nil)

text \<open>
  C3, as the code has it. The range clause with \<open>maxDocuments\<close> as upper bound follows the
  filter whenever the override is not active, and only the optional projection comes after
  it. When the override is active the result is the custom query itself, to which no range
  clause is added.
\<close>

theorem range_clause_unless_override:
  "(override_active c \<longrightarrow> buildExportQuery c = customQuery c) \<and>
   (\<not> override_active c \<longrightarrow>
      (\<exists>flt. buildExportQuery c = ''*['' @ flt @ range_clause (maxDocuments c) @ projection c))"
  using build_custom [of c] build_composed [of c] by blast

theorem range_clause_unless_override_witness:
  \<open>override_active custom_request \<and>
   buildExportQuery custom_request = customQuery custom_request \<and>
   \<not> override_active scenario2 \<and>
   (\<exists>flt. buildExportQuery scenario2 =
            ''*['' @ flt @ range_clause (maxDocuments scenario2) @ projection scenario2)\<close>
proof -
  have a: "override_active custom_request"
    by (simp add: override_active_def custom_request_def initial_def trim_custom)
  have b: "\<not> override_active scenario2"
    by (simp add: override_active_def scenario2_def initial_def)
  show ?thesis
    using a b range_clause_unless_override [of custom_request]
      range_clause_unless_override [of scenario2]
    by blast
qed

text \<open>
  The specification has the range clause in the custom-query path too. A custom query
  with the default bound of 1000 is returned without it.
\<close>

theorem range_clause_counterexample:
  \<open>buildExportQuery custom_request = ''*[_type == "post"]'' \<and>
   \<not> sublist (''[0...'' @ String_int (maxDocuments custom_request) @ '']'')
       (buildExportQuery custom_request)\<close>
  by (simp add: custom_request_def initial_def buildExportQuery_def trim_custom
        digits_1000 sublist_code)




section \<open>Tabular conversion (C2, C10)\<close>

lemma digits_nonempty: "digits n \<noteq> []"
  by (subst digits.simps) simp

lemma digits_zero: "digits 0 = ''0''"
  by (simp add: digits.simps digit_char_def)

lemma digits_zero_iff: "digits n = ''0'' \<longleftrightarrow> n = 0"
proof
  assume z: "digits n = ''0''"
  show "n = 0"
  proof (cases "n < 10")
    case True
    with z have same: "''0123456789'' ! n = ''0123456789'' ! (0::nat)"
      by (simp add: digits.simps digit_char_def)
    have "(''0123456789'' ! n = ''0123456789'' ! (0::nat)) = (n = 0)"
      by (rule nth_eq_iff_index_eq) (use True in simp_all)
    then show ?thesis using same by (rule iffD1)
  next
    case False
    then have "digits n = digits (n div 10) @ [digit_char (n mod 10)]"
      by (subst digits.simps) simp
    then have "length (digits n) \<ge> 2"
      using digits_nonempty [of "n div 10"] by (cases "digits (n div 10)") simp_all
    then show ?thesis using z by simp
  qed
next
  assume "n = 0"
  then show "digits n = ''0''" by (simp add: digits_zero)
qed

lemma length_of_array:
  "property h (JArr xs) ''length'' = Inr (Data (JNum (digits (length xs))))"
  by (simp add: property_def)

lemma array_not_empty: "xs \<noteq> [] \<Longrightarrow> \<not> is_zero (Data (JNum (digits (length xs))))"
  by (simp add: is_zero_def digits_zero_iff)

text \<open>The header loop succeeds exactly on the lists without \<open>null\<close>.\<close>

lemma collect_all_plain:
  "JNull \<notin> set docs \<Longrightarrow> collect_all h docs ks = Inr (fold (collect_plain h) docs ks)"
  by (induction docs arbitrary: ks) (auto simp: collect_keys_def collect_plain_def)

lemma collect_all_no_null: "collect_all h docs ks = Inr hs \<Longrightarrow> JNull \<notin> set docs"
proof (induction docs arbitrary: ks)
  case Nil
  show ?case by simp
next
  case (Cons doc docs)
  show ?case
  proof (cases "doc = JNull")
    case True
    with Cons.prems show ?thesis by (simp add: collect_keys_def)
  next
    case False
    with Cons.prems obtain ks' where "collect_all h docs ks' = Inr hs"
      by (auto simp: collect_keys_def)
    with Cons.IH False show ?thesis by auto
  qed
qed

lemma csv_rows_plain:
  "JNull \<notin> set docs \<Longrightarrow>
   csv_rows h headers docs =
     Inr (map (\<lambda>doc. join '','' (map (\<lambda>header. csv_cell (read h doc header)) headers)) docs)"
  by (induction docs) (auto simp: csv_row_def)

lemma convert_array:
  assumes "docs \<noteq> []" and "csv_headers h docs = Inr headers"
  shows "convertToCSV h (JArr docs) =
     Inr (join [CHR 0x0A]
            (join '','' headers #
             map (\<lambda>doc. join '','' (map (\<lambda>header. csv_cell (read h doc header)) headers)) docs))"
proof -
  have nn: "JNull \<notin> set docs"
    using assms(2) unfolding csv_headers_def by (rule collect_all_no_null)
  show ?thesis
    using array_not_empty [OF assms(1)]
    by (simp add: convertToCSV_def length_of_array assms(2) csv_rows_plain [OF nn])
qed

text \<open>The header loop on records that are objects.\<close>

lemma includable_cond:
  "(typeof (Data v) \<noteq> T_object \<or> Data v = Data JNull) = (\<not> nested v)"
  by (cases v) simp_all

lemma collect_keys_fold_gen:
  assumes "\<forall>kv \<in> set kvs. m (fst kv) = Data (snd kv)"
  shows "fold (\<lambda>key ks. if typeof (m key) \<noteq> T_object \<or> m key = Data JNull
                        then add_key key ks else ks) (map fst kvs) ks =
         fold add_key (map fst (filter (\<lambda>kv. \<not> nested (snd kv)) kvs)) ks"
  using assms
proof (induction kvs arbitrary: ks)
  case Nil
  then show ?case by simp
next
  case (Cons kv kvs)
  have m: "m (fst kv) = Data (snd kv)" using Cons.prems by simp
  have rest: "\<forall>kv \<in> set kvs. m (fst kv) = Data (snd kv)" using Cons.prems by simp
  show ?case
    using Cons.IH [OF rest] includable_cond [of "snd kv"] by (simp add: m)
qed

lemma collect_plain_includable:
  assumes "distinct (map fst doc)"
  shows "collect_plain h (JObj doc) ks = fold add_key (includable_keys doc) ks"
proof -
  have "\<forall>kv \<in> set doc. read h (JObj doc) (fst kv) = Data (snd kv)"
    using assms by auto
  then show ?thesis
    unfolding collect_plain_def includable_keys_def own_keys.simps
    by (rule collect_keys_fold_gen)
qed

lemma fold_collect_plain:
  assumes "\<forall>doc \<in> set data. distinct (map fst doc)"
  shows "fold (collect_plain h) (map JObj data) ks =
         fold add_key (concat (map includable_keys data)) ks"
  using assms
proof (induction data arbitrary: ks)
  case Nil
  then show ?case by simp
next
  case (Cons doc data)
  then show ?case by (simp add: collect_plain_includable)
qed

lemma first_seen_snoc:
  "first_seen (xs @ [x]) = (if x \<in> set xs then first_seen xs else first_seen xs @ [x])"
  by (simp add: first_seen_def)

lemma set_first_seen: "set (first_seen xs) = set xs"
  by (simp add: first_seen_def)

lemma fold_add_key: "fold add_key xs [] = first_seen xs"
proof (induction xs rule: rev_induct)
  case Nil
  show ?case by (simp add: first_seen_def)
next
  case (snoc x xs)
  then show ?case by (simp add: first_seen_snoc add_key_def set_first_seen)
qed

lemma csv_headers_first_seen:
  assumes "\<forall>doc \<in> set data. distinct (map fst doc)"
  shows "csv_headers h (map JObj data) = Inr (first_seen (concat (map includable_keys data)))"
proof -
  have "JNull \<notin> set (map JObj data)" by auto
  then show ?thesis
    unfolding csv_headers_def
    by (simp add: collect_all_plain fold_collect_plain [OF assms] fold_add_key)
qed

lemma in_includable_keys:
  assumes "distinct (map fst doc)"
  shows "k \<in> set (includable_keys doc) \<longleftrightarrow> (\<exists>v. map_of doc k = Some v \<and> \<not> nested v)"
proof
  assume "k \<in> set (includable_keys doc)"
  then obtain v where "(k, v) \<in> set doc" "\<not> nested v"
    by (auto simp: includable_keys_def)
  with assms show "\<exists>v. map_of doc k = Some v \<and> \<not> nested v" by auto
next
  assume "\<exists>v. map_of doc k = Some v \<and> \<not> nested v"
  then obtain v where "map_of doc k = Some v" "\<not> nested v" by blast
  then have "(k, v) \<in> set doc" by (auto dest: map_of_SomeD)
  with \<open>\<not> nested v\<close> show "k \<in> set (includable_keys doc)"
    by (force simp: includable_keys_def)
qed

text \<open>The function mapped over the headers is the rule of the specification.\<close>

lemma double_quotes_doubled: "double_quotes s = doubled s"
  by (induction s) (simp_all add: double_quotes_def)

lemma csv_cell_rule: "csv_cell v = cell_text v"
proof (cases v)
  case (Data j)
  then show ?thesis
    by (cases j)
       (simp_all add: csv_cell_def cell_text_def quote_wrapped_def double_quotes_doubled)
qed (simp_all add: csv_cell_def cell_text_def)

lemma length_doubled: "length s \<le> length (doubled s)"
  by (induction s) simp_all

lemma quote_wrapped_differs: "quote_wrapped s \<noteq> s"
proof
  assume "quote_wrapped s = s"
  then have "length (quote_wrapped s) = length s" by simp
  then show False using length_doubled [of s] by (simp add: quote_wrapped_def)
qed

text \<open>Evaluations at the concrete tables.\<close>

lemma read_own: "map_of kvs key = Some v \<Longrightarrow> read h (JObj kvs) key = Data v"
  by simp

lemma read_absent:
  "map_of kvs key = None \<Longrightarrow> read browser (JObj kvs) key = Object_prototype key"
  by (simp add: browser_def)

lemma headers_scenario3:
  "csv_headers browser (map JObj scenario3) = Inr [''_id'', ''_type'', ''title'']"
  by (simp add: scenario3_def csv_headers_def collect_keys_def add_key_def)

lemma csv_scenario3:
  "convertToCSV browser (JArr (map JObj scenario3)) =
     Inr ''_id,_type,title\<newline>a,post,Hi\<newline>b,post,''"
proof -
  have ne: "map JObj scenario3 \<noteq> []" by (simp add: scenario3_def)
  show ?thesis
    unfolding convert_array [OF ne headers_scenario3]
    by (simp add: scenario3_def csv_cell_def browser_def Object_prototype_def)
qed

lemma headers_mixed:
  "csv_headers browser mixed_table = Inr [''title'', ''n'', ''plain'', ''slug'']"
  by (simp add: mixed_table_def mixed_document_def csv_headers_def collect_keys_def add_key_def)

lemma headers_shadowing:
  "csv_headers browser shadowing_table = Inr [''constructor'', ''title'']"
  by (simp add: shadowing_table_def csv_headers_def collect_keys_def add_key_def)

text \<open>
  C2, as the code has it. For a non-empty list of records that are objects (each with
  distinct keys) the header names are the field names whose value in at least one record
  is neither an object nor an array, each once, in the order in which they are first met;
  the output is the header names joined by commas, then one row per record, all joined by
  line feeds. \<open>null\<close> and the scalars count; an array counts as nested, whatever it
  holds.
\<close>

theorem csv_header_union:
  assumes "data \<noteq> []" and "\<forall>doc \<in> set data. distinct (map fst doc)"
  shows "csv_headers h (map JObj data) =
           Inr (first_seen (concat (map includable_keys data))) \<and>
         (\<exists>rows. csv_rows h (first_seen (concat (map includable_keys data))) (map JObj data) =
                   Inr rows \<and>
                 length rows = length data \<and>
                 convertToCSV h (JArr (map JObj data)) =
                   Inr (join [CHR 0x0A]
                          (join '','' (first_seen (concat (map includable_keys data))) # rows))) \<and>
         set (first_seen (concat (map includable_keys data))) =
           {k. \<exists>doc \<in> set data. \<exists>v. map_of doc k = Some v \<and> \<not> nested v}"
proof -
  let ?H = "first_seen (concat (map includable_keys data))"
  have h: "csv_headers h (map JObj data) = Inr ?H"
    using assms(2) by (rule csv_headers_first_seen)
  have nn: "JNull \<notin> set (map JObj data)" by auto
  have ne: "map JObj data \<noteq> []" using assms(1) by simp
  have rows: "\<exists>rows. csv_rows h ?H (map JObj data) = Inr rows \<and> length rows = length data \<and>
       convertToCSV h (JArr (map JObj data)) = Inr (join [CHR 0x0A] (join '','' ?H # rows))"
    using convert_array [OF ne h] csv_rows_plain [OF nn, of h ?H] by simp
  have "set ?H = (\<Union>doc \<in> set data. set (includable_keys doc))"
    by (simp add: set_first_seen)
  also have "\<dots> = {k. \<exists>doc \<in> set data. \<exists>v. map_of doc k = Some v \<and> \<not> nested v}"
    using assms(2) by (auto simp: in_includable_keys)
  finally have s: "set ?H =
      {k. \<exists>doc \<in> set data. \<exists>v. map_of doc k = Some v \<and> \<not> nested v}" .
  from h rows s show ?thesis by blast
qed

theorem csv_header_union_witness:
  "scenario3 \<noteq> [] \<and> list_all (\<lambda>doc. distinct (map fst doc)) scenario3 \<and>
   csv_headers browser (map JObj scenario3) = Inr [''_id'', ''_type'', ''title''] \<and>
   convertToCSV browser (JArr (map JObj scenario3)) =
     Inr ''_id,_type,title\<newline>a,post,Hi\<newline>b,post,'' \<and>
   first_seen (concat (map includable_keys scenario3)) = [''_id'', ''_type'', ''title'']"
proof -
  have a: "scenario3 \<noteq> []" by (simp add: scenario3_def)
  have b: "\<forall>doc \<in> set scenario3. distinct (map fst doc)" by (simp add: scenario3_def)
  have c: "list_all (\<lambda>doc. distinct (map fst doc)) scenario3"
    using b by (simp add: list_all_iff)
  have "csv_headers browser (map JObj scenario3) =
      Inr (first_seen (concat (map includable_keys scenario3)))"
    using csv_header_union [OF a b, of browser] by blast
  then have d: "first_seen (concat (map includable_keys scenario3)) =
      [''_id'', ''_type'', ''title'']"
    by (simp add: headers_scenario3)
  from a c headers_scenario3 csv_scenario3 d show ?thesis by blast
qed

text \<open>
  The specification counts an array of primitives as includable and expects the header
  \<open>_id,_type,title,tags\<close> for scenario 3. The code gives \<open>_id,_type,title\<close>: the value of
  \<open>tags\<close> is an array, whose \<open>typeof\<close> is \<open>'object'\<close>.
\<close>

theorem csv_header_counterexample:
  "csv_headers browser (map JObj scenario3) = Inr [''_id'', ''_type'', ''title''] \<and>
   csv_headers browser (map JObj scenario3) \<noteq> Inr [''_id'', ''_type'', ''title'', ''tags''] \<and>
   read browser (JObj (scenario3 ! 1)) ''tags'' = Data (JArr [JStr ''x'']) \<and>
   convertToCSV browser (JArr (map JObj scenario3)) =
     Inr ''_id,_type,title\<newline>a,post,Hi\<newline>b,post,''"
proof -
  have t: "read browser (JObj (scenario3 ! 1)) ''tags'' = Data (JArr [JStr ''x''])"
    by (simp add: scenario3_def)
  have n: "csv_headers browser (map JObj scenario3) \<noteq>
      Inr [''_id'', ''_type'', ''title'', ''tags'']"
    by (simp add: headers_scenario3)
  from headers_scenario3 n t csv_scenario3 show ?thesis by blast
qed

text \<open>
  C10. For every non-empty list of records for which the header loop returns, the output
  of \<open>convertToCSV\<close> is the header row followed by one row per record, and the cell of a
  record under a header is the text of the value read there (an own field, or a member
  found on the prototype chain, or nothing), put between quotes with its internal quotes
  doubled when the value is a string that contains a comma, and left as it is otherwise:
  nothing for a missing or \<open>null\<close> value, the one-line JSON text of a nested structure
  with its commas and quotes untouched, the plain text of a number, a boolean, a
  comma-free string or an inherited function. So a cell is the quote-wrapped form of the
  value's text exactly when the value is a comma-containing string.
\<close>

theorem cell_quoting:
  assumes "docs \<noteq> []" and "csv_headers h docs = Inr headers"
  shows "convertToCSV h (JArr docs) =
           Inr (join [CHR 0x0A]
                  (join '','' headers #
                   map (\<lambda>doc. join '','' (map (\<lambda>header. cell_text (read h doc header)) headers))
                     docs)) \<and>
         (cell_text v = quote_wrapped (plain_text v) \<longleftrightarrow> comma_string v) \<and>
         (\<not> comma_string v \<longrightarrow> cell_text v = plain_text v)"
proof -
  have table: "convertToCSV h (JArr docs) =
           Inr (join [CHR 0x0A]
                  (join '','' headers #
                   map (\<lambda>doc. join '','' (map (\<lambda>header. cell_text (read h doc header)) headers))
                     docs))"
    using convert_array [OF assms] by (simp add: csv_cell_rule)
  have iff: "cell_text v = quote_wrapped (plain_text v) \<longleftrightarrow> comma_string v"
    using quote_wrapped_differs [of "plain_text v"] by (auto simp: cell_text_def)
  have rest: "\<not> comma_string v \<longrightarrow> cell_text v = plain_text v"
    by (simp add: cell_text_def)
  from table iff rest show ?thesis by blast
qed

theorem cell_quoting_witness:
  \<open>mixed_table \<noteq> [] \<and>
   csv_headers browser mixed_table = Inr [''title'', ''n'', ''plain'', ''slug''] \<and>
   convertToCSV browser (JArr mixed_table) =
     Inr ''title,n,plain,slug\<newline>"a, ""b""",1.5,"q",{"current":"x,y"}\<newline>,,,s'' \<and>
   comma_string (read browser (JObj mixed_document) ''title'') \<and>
   cell_text (read browser (JObj mixed_document) ''title'') =
     quote_wrapped (plain_text (read browser (JObj mixed_document) ''title'')) \<and>
   shadowing_table \<noteq> [] \<and>
   csv_headers browser shadowing_table = Inr [''constructor'', ''title''] \<and>
   convertToCSV browser (JArr shadowing_table) =
     Inr ''constructor,title\<newline>x,"a,b"\<newline>function Object() { [native code] },''\<close>
proof -
  have a: "mixed_table \<noteq> []" by (simp add: mixed_table_def)
  have b: "shadowing_table \<noteq> []" by (simp add: shadowing_table_def)
  note m = cell_quoting [OF a headers_mixed,
      of "read browser (JObj mixed_document) ''title''"]
  note s = cell_quoting [OF b headers_shadowing, of Undefined]
  have c: "comma_string (read browser (JObj mixed_document) ''title'')"
    by (simp add: mixed_document_def)
  have m1: \<open>convertToCSV browser (JArr mixed_table) =
     Inr ''title,n,plain,slug\<newline>"a, ""b""",1.5,"q",{"current":"x,y"}\<newline>,,,s''\<close>
    unfolding m [THEN conjunct1]
    by (simp add: mixed_table_def mixed_document_def cell_text_def quote_wrapped_def
          browser_def Object_prototype_def quote_json_def json_escape_char_def)
  have m2: "cell_text (read browser (JObj mixed_document) ''title'') =
     quote_wrapped (plain_text (read browser (JObj mixed_document) ''title''))"
    using m c by blast
  have s1: \<open>convertToCSV browser (JArr shadowing_table) =
     Inr ''constructor,title\<newline>x,"a,b"\<newline>function Object() { [native code] },''\<close>
    unfolding s [THEN conjunct1]
    by (simp add: shadowing_table_def cell_text_def quote_wrapped_def
          browser_def Object_prototype_def native_function_def)
  from a headers_mixed m1 c m2 b headers_shadowing s1 show ?thesis by blast
qed


section \<open>Runs of handleExport (C1, C5, C6, C9)\<close>

lemma run_rejected:
  "\<not> passes_validation c \<Longrightarrow>
   handleExport env c =
     ([SetMessage ''Please select at least one document type or use a custom query''], Normal)"
  by (simp add: handleExport_def passes_validation_def)

lemma run_fetch_failure:
  assumes "passes_validation c" and "fetch_fails env c e"
  shows "handleExport env c =
     (started c @ fst (catch_block env e) @ finally_block, snd (catch_block env e))"
  using assms
  by (simp add: handleExport_def passes_validation_def try_block_def fetch_fails_def
        started_def Let_def)

lemma run_count_failure:
  assumes "passes_validation c" and "count_fails env c documents e"
  shows "handleExport env c =
     (started c @ fst (catch_block env e) @ finally_block, snd (catch_block env e))"
  using assms
  by (simp add: handleExport_def passes_validation_def try_block_def count_fails_def
        started_def Let_def)

lemma run_naming_failure:
  assumes "passes_validation c" and "naming_fails env c documents len e"
  shows "handleExport env c =
     (started c @ counted len @ fst (catch_block env e) @ finally_block,
      snd (catch_block env e))"
  using assms
  by (simp add: handleExport_def passes_validation_def try_block_def naming_fails_def
        fetched_def started_def counted_def Let_def)

lemma run_conversion_failure:
  assumes "passes_validation c" and "conversion_fails env c documents len stamp e"
  shows "handleExport env c =
     (started c @ counted len @ fst (catch_block env e) @ finally_block,
      snd (catch_block env e))"
  using assms
  by (simp add: handleExport_def passes_validation_def try_block_def conversion_fails_def
        fetched_def started_def counted_def Let_def)

lemma run_download_failure:
  assumes "passes_validation c" and "download_fails env c documents len stamp body e"
  shows "handleExport env c =
     (started c @ counted len @ emitted c stamp body @ fst (catch_block env e) @ finally_block,
      snd (catch_block env e))"
  using assms
  by (simp add: handleExport_def passes_validation_def try_block_def download_fails_def
        fetched_def started_def counted_def emitted_def Let_def)

lemma run_empty:
  assumes "passes_validation c" and "client_fetch env (buildExportQuery c) = Inr (JArr [])"
  shows "handleExport env c =
     (started c @
      [SetExportCount (Data (JNum ''0'')), SetExportProgress 50,
       SetMessage ''No documents found matching the criteria''] @ finally_block, Normal)"
  using assms
  by (simp add: handleExport_def passes_validation_def try_block_def property_def
        digits_zero is_zero_def started_def Let_def)

lemma timestamp_instant:
  "Date_toISOString env = Inr instant \<Longrightarrow>
   timestamp env = Inr (hd (split_str (CHR ''T'') instant))"
  by (simp add: timestamp_def)

lemma run_success:
  assumes "run_succeeds env c documents len instant body"
  shows "handleExport env c =
     (started c @ counted len @ emitted c (hd (split_str (CHR ''T'') instant)) body @
      [SetExportProgress 100,
       SetMessage (''Successfully exported '' @ String_value len @ '' documents as '' @
                   finalFilename c (hd (split_str (CHR ''T'') instant)))] @
      fst (call_onComplete env len (exportFormat c)
             (finalFilename c (hd (split_str (CHR ''T'') instant)))) @
      finally_block, Normal)"
  using assms
  by (simp add: handleExport_def passes_validation_def try_block_def run_succeeds_def
        fetched_def timestamp_instant started_def counted_def emitted_def Let_def)

text \<open>What the lists of calls contain, and the state they leave.\<close>

lemma started_calls:
  "filter is_OnComplete (started c) = []"
  "filter is_OnError (started c) = []"
  "filter is_side_effect (started c) = [ClientFetch (buildExportQuery c)]"
  "delayed (started c) = []"
  by (simp_all add: started_def)

lemma counted_calls:
  "filter is_OnComplete (counted len) = []"
  "filter is_OnError (counted len) = []"
  "filter is_side_effect (counted len) = []"
  "delayed (counted len) = []"
  by (simp_all add: counted_def)

lemma emitted_calls:
  "filter is_OnComplete (emitted c stamp body) = []"
  "filter is_OnError (emitted c stamp body) = []"
  "filter is_side_effect (emitted c stamp body) =
     [DownloadFile body (finalFilename c stamp) (mimeType c)]"
  "delayed (emitted c stamp body) = []"
  by (simp_all add: emitted_def)

lemma onError_calls:
  "filter is_OnComplete (fst (call_onError env m)) = []"
  "filter is_OnError (fst (call_onError env m)) =
     (case onError env of None \<Rightarrow> [] | Some callback \<Rightarrow> [OnError m])"
  "delayed (fst (call_onError env m)) = []"
  "state_after s (fst (call_onError env m)) = s"
  by (simp_all add: call_onError_def state_after_def split: option.splits)

lemma onComplete_calls:
  "filter is_OnComplete (fst (call_onComplete env len fmt name)) =
     (case onComplete env of None \<Rightarrow> [] | Some callback \<Rightarrow> [OnComplete len fmt name])"
  "filter is_OnError (fst (call_onComplete env len fmt name)) = []"
  "filter is_side_effect (fst (call_onComplete env len fmt name)) = []"
  "delayed (fst (call_onComplete env len fmt name)) = []"
  "state_after s (fst (call_onComplete env len fmt name)) = s"
  by (simp_all add: call_onComplete_def state_after_def split: option.splits)

lemma catch_calls:
  "filter is_OnComplete (fst (catch_block env e)) = []"
  "filter is_OnError (fst (catch_block env e)) =
     (case onError env of None \<Rightarrow> [] | Some callback \<Rightarrow> [OnError (error_message_of e)])"
  "delayed (fst (catch_block env e)) = []"
  by (simp_all add: catch_block_def onError_calls)

lemma catch_completion:
  "snd (catch_block env e) =
     (case onError env of
        None \<Rightarrow> Normal
      | Some callback \<Rightarrow>
          (case callback (error_message_of e) of None \<Rightarrow> Normal | Some e' \<Rightarrow> Abrupt e'))"
  by (simp add: catch_block_def call_onError_def split: option.splits)

lemma finally_calls:
  "filter is_OnComplete finally_block = []"
  "filter is_OnError finally_block = []"
  "filter is_side_effect finally_block = []"
  "delayed finally_block = [SetExportProgress 0]"
  by (simp_all add: finally_block_def)

lemma delayed_append: "delayed (xs @ ys) = delayed xs @ delayed ys"
  by (induction xs rule: delayed.induct) simp_all

lemma state_after_append:
  "state_after c (xs @ ys) = state_after (state_after c xs) ys"
  by (simp add: state_after_def)

lemma state_after_catch_finally:
  "state_after s (fst (catch_block env e) @ finally_block) =
     s\<lparr>message := ''Export error: '' @ error_message_of e, isExporting := False\<rparr>"
proof -
  have "state_after s (fst (catch_block env e)) =
      s\<lparr>message := ''Export error: '' @ error_message_of e\<rparr>"
    unfolding catch_block_def fst_conv state_after_append onError_calls
    by (simp add: state_after_def)
  then show ?thesis
    by (simp add: state_after_append [of s "fst (catch_block env e)"])
       (simp add: state_after_def finally_block_def)
qed

lemma state_after_empty:
  "state_after c (started c' @
      [SetExportCount n, SetExportProgress 50,
       SetMessage ''No documents found matching the criteria''] @ finally_block) =
   c\<lparr>isExporting := False, message := ''No documents found matching the criteria'',
     exportProgress := 50, exportCount := n\<rparr>"
  by (simp add: state_after_def started_def finally_block_def)

lemma message_after_finally: "message (state_after s finally_block) = message s"
  by (simp add: state_after_def finally_block_def)

lemma message_after_success:
  "message (state_after c (pre @ [SetExportProgress 100, SetMessage m] @
      fst (call_onComplete env len fmt name) @ finally_block)) = m"
proof -
  have "state_after c (pre @ [SetExportProgress 100, SetMessage m] @
      fst (call_onComplete env len fmt name) @ finally_block) =
    state_after
      (state_after (state_after (state_after c pre) [SetExportProgress 100, SetMessage m])
         (fst (call_onComplete env len fmt name)))
      finally_block"
    by (simp only: state_after_append)
  then show ?thesis
    by (simp add: message_after_finally onComplete_calls) (simp add: state_after_def)
qed

lemma split_str_nonempty: "split_str sep s \<noteq> []"
  by (induction s) (simp_all split: list.splits)

lemma hd_split_str: "hd (split_str sep s) = takeWhile (\<lambda>ch. ch \<noteq> sep) s"
proof (induction s)
  case Nil
  show ?case by simp
next
  case (Cons c cs)
  then show ?case
    using split_str_nonempty [of sep cs] by (cases "split_str sep cs") auto
qed

lemma finalFilename_spec:
  assumes "\<not> types_left_selected c" and "passes_validation c"
  shows "finalFilename c (hd (split_str (CHR ''T'') instant)) = spec_output_name c instant"
proof -
  have ext: "finalFilename c stamp = generatedFilename c stamp @ extension (exportFormat c)"
    for stamp
    by (cases "exportFormat c") (simp_all add: finalFilename_def extension_def)
  have date: "hd (split_str (CHR ''T'') instant) = iso_date instant"
    by (simp add: hd_split_str iso_date_def)
  show ?thesis
  proof (cases "trim (filename c) = []")
    case False
    then show ?thesis
      by (simp add: ext generatedFilename_def spec_output_name_def)
  next
    case True
    show ?thesis
    proof (cases "useCustomQuery c")
      case custom: True
      with True assms(1) have "selectedTypes c = []"
        by (simp add: types_left_selected_def)
      with True custom show ?thesis
        by (simp add: ext date generatedFilename_def typeString_def spec_output_name_def)
    next
      case plain: False
      with assms(2) have "selectedTypes c \<noteq> []"
        by (simp add: passes_validation_def)
      with True plain show ?thesis
        by (simp add: ext date generatedFilename_def typeString_def spec_output_name_def)
    qed
  qed
qed

text \<open>A run that ends in the \<open>catch\<close> clause after calls that invoke no callback.\<close>

lemma caught_run:
  assumes run: "handleExport env c =
       (calls @ fst (catch_block env e) @ finally_block, snd (catch_block env e))"
    and quiet: "filter is_OnComplete calls = []" "filter is_OnError calls = []"
      "delayed calls = []"
  shows "(\<exists>calls. fst (handleExport env c) =
              calls @ fst (catch_block env e) @ finally_block \<and>
              filter is_OnComplete calls = [] \<and> filter is_OnError calls = []) \<and>
         filter is_OnComplete (fst (handleExport env c)) = [] \<and>
         filter is_OnError (fst (handleExport env c)) =
           (case onError env of
              None \<Rightarrow> [] | Some callback \<Rightarrow> [OnError (error_message_of e)]) \<and>
         message (state_after c (fst (handleExport env c))) =
           ''Export error: '' @ error_message_of e \<and>
         isExporting (state_after c (fst (handleExport env c))) = False \<and>
         exportProgress (state_settled c (fst (handleExport env c))) = 0 \<and>
         snd (handleExport env c) =
           (case onError env of
              None \<Rightarrow> Normal
            | Some callback \<Rightarrow>
                (case callback (error_message_of e) of
                   None \<Rightarrow> Normal | Some e' \<Rightarrow> Abrupt e'))"
proof -
  have st: "state_after c (fst (handleExport env c)) =
      (state_after c calls)\<lparr>message := ''Export error: '' @ error_message_of e,
                            isExporting := False\<rparr>"
    by (simp add: run state_after_append [of _ calls] state_after_catch_finally)
  have settled: "exportProgress (state_settled c (fst (handleExport env c))) = 0"
    by (simp add: run state_settled_def delayed_append quiet catch_calls finally_calls)
  have msg: "message (state_after c (fst (handleExport env c))) =
      ''Export error: '' @ error_message_of e"
    by (simp add: st)
  have idle: "isExporting (state_after c (fst (handleExport env c))) = False"
    by (simp add: st)
  have calls: "\<exists>calls. fst (handleExport env c) =
              calls @ fst (catch_block env e) @ finally_block \<and>
              filter is_OnComplete calls = [] \<and> filter is_OnError calls = []"
    using run quiet by auto
  have none: "filter is_OnComplete (fst (handleExport env c)) = []"
    by (simp add: run quiet catch_calls finally_calls)
  have once: "filter is_OnError (fst (handleExport env c)) =
           (case onError env of
              None \<Rightarrow> [] | Some callback \<Rightarrow> [OnError (error_message_of e)])"
    by (simp add: run quiet catch_calls finally_calls)
  have outcome: "snd (handleExport env c) =
           (case onError env of
              None \<Rightarrow> Normal
            | Some callback \<Rightarrow>
                (case callback (error_message_of e) of
                   None \<Rightarrow> Normal | Some e' \<Rightarrow> Abrupt e'))"
    by (simp add: run catch_completion)
  from calls none once msg idle settled outcome show ?thesis
    by blast
qed

text \<open>Evaluations at the concrete runs.\<close>

lemma passes_scenario1: "passes_validation scenario1"
  by (simp add: passes_validation_def scenario1_def initial_def)

lemma fetch_store: "client_fetch (store ds) q = Inr ds"
  by (simp add: store_def)

lemma stamp_store: "timestamp (store ds) = Inr ''2024-01-15''"
  by (simp add: timestamp_def store_def)

lemma length_one_post: "property browser one_post ''length'' = Inr (Data (JNum ''1''))"
  by (simp add: one_post_def property_def digits.simps digit_char_def)

lemma fetched_one_post: "fetched (store one_post) c one_post (Data (JNum ''1''))"
  using length_one_post by (simp add: fetched_def store_def is_zero_def)

lemma content_json:
  "exportFormat c = Json \<Longrightarrow> content env c documents = Inr (JSON_stringify_2 documents)"
  by (simp add: content_def)

lemma csv_one_post:
  "convertToCSV browser one_post = Inr ''_id,_type,title\<newline>a,post,Hi''"
proof -
  have h: "csv_headers browser
      [JObj [(''_id'', JStr ''a''), (''_type'', JStr ''post''), (''title'', JStr ''Hi'')]] =
      Inr [''_id'', ''_type'', ''title'']"
    by (simp add: csv_headers_def collect_keys_def add_key_def)
  show ?thesis
    unfolding one_post_def
    by (subst convert_array [OF _ h]) (simp_all add: csv_cell_def)
qed

lemma trim_report: "trim '' report '' = ''report''"
  by (simp add: trim_def is_space_def)

lemma fetch_unreachable:
  "fetch_fails unreachable_store scenario1 (Error_object ''Network error'')"
  by (simp add: fetch_fails_def unreachable_store_def store_def)

lemma fetch_angry:
  "fetch_fails angry_listener scenario1 (Error_object ''Network error'')"
  by (simp add: fetch_fails_def angry_listener_def unreachable_store_def store_def)

lemma count_null:
  "count_fails (store JNull) scenario1 JNull
     (Error_object (''Cannot read properties of null (reading '' @ [CHR 0x27] @ ''length'' @
                    [CHR 0x27] @ '')''))"
  by (simp add: count_fails_def store_def property_def browser_def)

lemma naming_stopped:
  "naming_fails stopped_clock scenario1 one_post (Data (JNum ''1''))
     (Error_object ''Invalid time value'')"
  using length_one_post
  by (simp add: naming_fails_def fetched_def stopped_clock_def store_def is_zero_def
        timestamp_def)

lemma conversion_null_record:
  "conversion_fails (store (JArr [JNull])) (scenario1\<lparr>exportFormat := Csv\<rparr>) (JArr [JNull])
     (Data (JNum ''1'')) ''2024-01-15''
     (Error_object ''Cannot convert undefined or null to object'')"
proof -
  have "convertToCSV browser (JArr [JNull]) =
      Inl (Error_object ''Cannot convert undefined or null to object'')"
    by (simp add: convertToCSV_def property_def digits.simps digit_char_def is_zero_def
          csv_headers_def collect_keys_def browser_def)
  then show ?thesis
    by (simp add: conversion_fails_def fetched_def fetch_store stamp_store content_def
          property_def digits.simps digit_char_def is_zero_def)
       (simp add: store_def)
qed

lemma download_blocked:
  "download_fails blocked_download scenario1 one_post (Data (JNum ''1'')) ''2024-01-15''
     (JSON_stringify_2 one_post) Other_thrown"
proof -
  have f: "fetched blocked_download scenario1 one_post (Data (JNum ''1''))"
    using length_one_post by (simp add: fetched_def blocked_download_def store_def is_zero_def)
  have t: "timestamp blocked_download = Inr ''2024-01-15''"
    by (simp add: timestamp_def blocked_download_def store_def)
  have j: "exportFormat scenario1 = Json" by (simp add: scenario1_def initial_def)
  show ?thesis
    by (simp add: download_fails_def f t content_json [OF j])
       (simp add: blocked_download_def store_def)
qed

lemma succeeds_named:
  "run_succeeds (store one_post) (scenario1\<lparr>filename := '' report ''\<rparr>) one_post
     (Data (JNum ''1'')) ''2024-01-15T10:30:00.000Z'' (JSON_stringify_2 one_post)"
  by (simp add: run_succeeds_def fetched_one_post call_onComplete_def)
     (simp add: passes_validation_def content_def scenario1_def initial_def store_def)

lemma succeeds_post:
  "run_succeeds (store one_post) scenario1 one_post
     (Data (JNum ''1'')) ''2024-01-15T10:30:00.000Z'' (JSON_stringify_2 one_post)"
  by (simp add: run_succeeds_def fetched_one_post call_onComplete_def)
     (simp add: passes_validation_def content_def scenario1_def initial_def store_def)

lemma succeeds_custom:
  "run_succeeds (store one_post) custom_request one_post
     (Data (JNum ''1'')) ''2024-01-15T10:30:00.000Z'' (JSON_stringify_2 one_post)"
  by (simp add: run_succeeds_def fetched_one_post call_onComplete_def)
     (simp add: passes_validation_def content_def custom_request_def initial_def store_def)

lemma succeeds_no_type:
  "run_succeeds (store one_post)
     (custom_request\<lparr>selectedTypes := [], exportFormat := Csv\<rparr>) one_post
     (Data (JNum ''1'')) ''2024-01-15T10:30:00.000Z'' ''_id,_type,title\<newline>a,post,Hi''"
  by (simp add: run_succeeds_def fetched_one_post content_def call_onComplete_def)
     (simp add: passes_validation_def custom_request_def initial_def store_def csv_one_post)

lemma given_store: "onComplete (store ds) = Some (\<lambda>exported fmt name. None)"
  by (simp add: store_def)

lemma date_of_instant: "iso_date ''2024-01-15T10:30:00.000Z'' = ''2024-01-15''"
  by (simp add: iso_date_def)

lemma name_named:
  "spec_output_name (scenario1\<lparr>filename := '' report ''\<rparr>) instant = ''report.json''"
  by (simp add: spec_output_name_def extension_def scenario1_def initial_def trim_report)

lemma name_post:
  "spec_output_name scenario1 ''2024-01-15T10:30:00.000Z'' =
     ''sanity-export-post-2024-01-15.json''"
  by (simp add: spec_output_name_def date_of_instant extension_def)
     (simp add: scenario1_def initial_def trim_nil)

lemma name_no_type:
  "spec_output_name (custom_request\<lparr>selectedTypes := [], exportFormat := Csv\<rparr>)
     ''2024-01-15T10:30:00.000Z'' = ''sanity-export-custom-2024-01-15.csv''"
  by (simp add: spec_output_name_def date_of_instant extension_def)
     (simp add: custom_request_def initial_def trim_nil)

text \<open>
  The case the naming rule is silent about: with the custom-query flag on and the type
  \<open>post\<close> still selected, the code names the file after \<open>post\<close>.
\<close>

lemma custom_run_named_after_types:
  "types_left_selected custom_request \<and>
   finalFilename custom_request (hd (split_str (CHR ''T'') ''2024-01-15T10:30:00.000Z'')) =
     ''sanity-export-post-2024-01-15.json''"
  by (simp add: types_left_selected_def finalFilename_def generatedFilename_def typeString_def
        custom_request_def initial_def trim_nil)

text \<open>
  C6. A run started with no selected type and the custom-query flag off makes one call,
  the setter of the validation message, and returns. The state is the old one with that
  message, so \<open>isExporting\<close> and the progress are untouched; nothing is fetched or
  downloaded, and neither callback is invoked.
\<close>

theorem validation_blocks_run:
  assumes "selectedTypes c = []" and "\<not> useCustomQuery c"
  shows "handleExport env c =
           ([SetMessage ''Please select at least one document type or use a custom query''],
            Normal) \<and>
         state_settled c (fst (handleExport env c)) =
           c\<lparr>message := ''Please select at least one document type or use a custom query''\<rparr> \<and>
         filter is_side_effect (fst (handleExport env c)) = [] \<and>
         filter is_OnComplete (fst (handleExport env c)) = [] \<and>
         filter is_OnError (fst (handleExport env c)) = []"
proof -
  have "\<not> passes_validation c" using assms by (simp add: passes_validation_def)
  then show ?thesis
    by (simp add: run_rejected state_settled_def state_after_def)
qed

theorem validation_blocks_run_witness:
  "selectedTypes initial = [] \<and> \<not> useCustomQuery initial \<and>
   handleExport (store one_post) initial =
     ([SetMessage ''Please select at least one document type or use a custom query''],
      Normal) \<and>
   isExporting (state_settled initial (fst (handleExport (store one_post) initial))) = False \<and>
   exportProgress (state_settled initial (fst (handleExport (store one_post) initial))) = 0"
proof -
  have a: "selectedTypes initial = []" by (simp add: initial_def)
  have b: "\<not> useCustomQuery initial" by (simp add: initial_def)
  note run = validation_blocks_run [OF a b, of "store one_post"]
  have r: "handleExport (store one_post) initial =
     ([SetMessage ''Please select at least one document type or use a custom query''],
      Normal)"
    using run by blast
  have s: "state_settled initial (fst (handleExport (store one_post) initial)) =
      initial\<lparr>message := ''Please select at least one document type or use a custom query''\<rparr>"
    using run by blast
  have i: "isExporting (state_settled initial (fst (handleExport (store one_post) initial))) =
      False"
    unfolding s by (simp add: initial_def)
  have p: "exportProgress (state_settled initial (fst (handleExport (store one_post) initial))) =
      0"
    unfolding s by (simp add: initial_def)
  from a b r i p show ?thesis by blast
qed

text \<open>
  C1, as the code has it. When a run passes the entry guard and the fetch resolves with
  an empty list, the run returns normally after setting the message
  \<open>No documents found matching the criteria\<close>, an export count of zero and the progress
  50, which the delayed call resets to 0. The fetch is its only outside call, and neither
  the completion callback nor the error callback is invoked.
\<close>

theorem empty_result_run:
  assumes "passes_validation c" and "client_fetch env (buildExportQuery c) = Inr (JArr [])"
  shows "handleExport env c =
           (started c @
            [SetExportCount (Data (JNum ''0'')), SetExportProgress 50,
             SetMessage ''No documents found matching the criteria''] @ finally_block,
            Normal) \<and>
         filter is_OnComplete (fst (handleExport env c)) = [] \<and>
         filter is_OnError (fst (handleExport env c)) = [] \<and>
         filter is_side_effect (fst (handleExport env c)) = [ClientFetch (buildExportQuery c)] \<and>
         message (state_after c (fst (handleExport env c))) =
           ''No documents found matching the criteria'' \<and>
         exportCount (state_after c (fst (handleExport env c))) = Data (JNum ''0'') \<and>
         exportProgress (state_after c (fst (handleExport env c))) = 50 \<and>
         isExporting (state_after c (fst (handleExport env c))) = False \<and>
         exportProgress (state_settled c (fst (handleExport env c))) = 0"
proof -
  note run = run_empty [OF assms]
  have st: "state_after c (fst (handleExport env c)) =
      c\<lparr>isExporting := False, message := ''No documents found matching the criteria'',
        exportProgress := 50, exportCount := Data (JNum ''0'')\<rparr>"
    by (simp only: run fst_conv state_after_empty)
  have settled: "exportProgress (state_settled c (fst (handleExport env c))) = 0"
    by (simp add: run state_settled_def delayed_append started_calls finally_calls)
  have calls:
    "filter is_OnComplete (fst (handleExport env c)) = []"
    "filter is_OnError (fst (handleExport env c)) = []"
    "filter is_side_effect (fst (handleExport env c)) = [ClientFetch (buildExportQuery c)]"
    by (simp_all add: run started_calls finally_calls)
  have fields:
    "message (state_after c (fst (handleExport env c))) =
       ''No documents found matching the criteria''"
    "exportCount (state_after c (fst (handleExport env c))) = Data (JNum ''0'')"
    "exportProgress (state_after c (fst (handleExport env c))) = 50"
    "isExporting (state_after c (fst (handleExport env c))) = False"
    by (simp_all add: st)
  from run calls fields settled show ?thesis by blast
qed

theorem empty_result_run_witness:
  "passes_validation scenario1 \<and>
   client_fetch (store (JArr [])) (buildExportQuery scenario1) = Inr (JArr []) \<and>
   message (state_after scenario1 (fst (handleExport (store (JArr [])) scenario1))) =
     ''No documents found matching the criteria'' \<and>
   exportCount (state_after scenario1 (fst (handleExport (store (JArr [])) scenario1))) =
     Data (JNum ''0'') \<and>
   filter is_OnError (fst (handleExport (store (JArr [])) scenario1)) = []"
  using empty_result_run
      [OF passes_scenario1 fetch_store [of "JArr []" "buildExportQuery scenario1"]]
    passes_scenario1 fetch_store [of "JArr []" "buildExportQuery scenario1"]
  by blast

text \<open>
  The specification has the completion callback invoked once with a count of zero. With
  the callback supplied and an empty fetch result, the run never calls it.
\<close>

theorem empty_result_counterexample:
  "passes_validation scenario1 \<and> onComplete (store (JArr [])) \<noteq> None \<and>
   client_fetch (store (JArr [])) (buildExportQuery scenario1) = Inr (JArr []) \<and>
   filter is_OnComplete (fst (handleExport (store (JArr [])) scenario1)) = [] \<and>
   length (filter is_OnComplete (fst (handleExport (store (JArr [])) scenario1))) \<noteq> 1"
proof -
  have given: "onComplete (store (JArr [])) \<noteq> None" by (simp add: store_def)
  have none: "filter is_OnComplete (fst (handleExport (store (JArr [])) scenario1)) = []"
    by (simp add: run_empty [OF passes_scenario1 fetch_store] started_calls finally_calls)
  then have "length (filter is_OnComplete (fst (handleExport (store (JArr [])) scenario1))) \<noteq> 1"
    by simp
  with passes_scenario1 given fetch_store [of "JArr []" "buildExportQuery scenario1"] none
  show ?thesis by blast
qed

text \<open>
  C9. Whatever step of a run that passed the entry guard raises \<open>e\<close> (the fetch, the
  reading of the result's length, the printing of the date for the name, the conversion,
  the download helper), the \<open>catch\<close> clause takes it: the last calls of the run are
  those of the \<open>catch\<close> and \<open>finally\<close> clauses, the error callback (when supplied) is
  invoked once, with the message of \<open>e\<close>, the completion callback is not invoked, the
  status message is \<open>Export error:\<close> and that message, \<open>isExporting\<close> is off, and the
  delayed call resets the progress to 0. The failure \<open>e\<close> does not leave
  \<open>handleExport\<close>: the promise is rejected only when the error callback itself throws,
  and then with what the callback threw.
\<close>

theorem failures_are_caught:
  assumes "passes_validation c"
      and "fetch_fails env c e \<or> count_fails env c documents e \<or>
           naming_fails env c documents len e \<or>
           conversion_fails env c documents len stamp e \<or>
           download_fails env c documents len stamp body e"
  shows "(\<exists>calls. fst (handleExport env c) =
              calls @ fst (catch_block env e) @ finally_block \<and>
              filter is_OnComplete calls = [] \<and> filter is_OnError calls = []) \<and>
         filter is_OnComplete (fst (handleExport env c)) = [] \<and>
         filter is_OnError (fst (handleExport env c)) =
           (case onError env of
              None \<Rightarrow> [] | Some callback \<Rightarrow> [OnError (error_message_of e)]) \<and>
         message (state_after c (fst (handleExport env c))) =
           ''Export error: '' @ error_message_of e \<and>
         isExporting (state_after c (fst (handleExport env c))) = False \<and>
         exportProgress (state_settled c (fst (handleExport env c))) = 0 \<and>
         snd (handleExport env c) =
           (case onError env of
              None \<Rightarrow> Normal
            | Some callback \<Rightarrow>
                (case callback (error_message_of e) of
                   None \<Rightarrow> Normal | Some e' \<Rightarrow> Abrupt e'))"
proof -
  consider (fetch) "fetch_fails env c e"
    | (count) "count_fails env c documents e"
    | (naming) "naming_fails env c documents len e"
    | (conversion) "conversion_fails env c documents len stamp e"
    | (download) "download_fails env c documents len stamp body e"
    using assms(2) by blast
  then show ?thesis
  proof cases
    case fetch
    show ?thesis
      by (rule caught_run [OF run_fetch_failure [OF assms(1) fetch]])
         (simp_all add: started_calls)
  next
    case count
    show ?thesis
      by (rule caught_run [OF run_count_failure [OF assms(1) count]])
         (simp_all add: started_calls)
  next
    case naming
    show ?thesis
      by (rule caught_run [where calls = "started c @ counted len"])
         (simp_all add: run_naming_failure [OF assms(1) naming] started_calls counted_calls
            delayed_append)
  next
    case conversion
    show ?thesis
      by (rule caught_run [where calls = "started c @ counted len"])
         (simp_all add: run_conversion_failure [OF assms(1) conversion] started_calls
            counted_calls delayed_append)
  next
    case download
    show ?thesis
      by (rule caught_run [where calls = "started c @ counted len @ emitted c stamp body"])
         (simp_all add: run_download_failure [OF assms(1) download] started_calls
            counted_calls emitted_calls delayed_append)
  qed
qed

theorem failures_are_caught_witness:
  "passes_validation scenario1 \<and>
   fetch_fails unreachable_store scenario1 (Error_object ''Network error'') \<and>
   snd (handleExport unreachable_store scenario1) = Normal \<and>
   filter is_OnError (fst (handleExport unreachable_store scenario1)) =
     [OnError ''Network error''] \<and>
   message (state_after scenario1 (fst (handleExport unreachable_store scenario1))) =
     ''Export error: Network error'' \<and>
   naming_fails stopped_clock scenario1 one_post (Data (JNum ''1''))
     (Error_object ''Invalid time value'') \<and>
   filter is_OnError (fst (handleExport stopped_clock scenario1)) =
     [OnError ''Invalid time value''] \<and>
   passes_validation (scenario1\<lparr>exportFormat := Csv\<rparr>) \<and>
   conversion_fails (store (JArr [JNull])) (scenario1\<lparr>exportFormat := Csv\<rparr>) (JArr [JNull])
     (Data (JNum ''1'')) ''2024-01-15''
     (Error_object ''Cannot convert undefined or null to object'') \<and>
   snd (handleExport (store (JArr [JNull])) (scenario1\<lparr>exportFormat := Csv\<rparr>)) = Normal \<and>
   filter is_OnError
     (fst (handleExport (store (JArr [JNull])) (scenario1\<lparr>exportFormat := Csv\<rparr>))) =
     [OnError ''Cannot convert undefined or null to object''] \<and>
   download_fails blocked_download scenario1 one_post (Data (JNum ''1'')) ''2024-01-15''
     (JSON_stringify_2 one_post) Other_thrown \<and>
   snd (handleExport blocked_download scenario1) = Normal \<and>
   filter is_OnError (fst (handleExport blocked_download scenario1)) =
     [OnError ''Export failed''] \<and>
   fetch_fails angry_listener scenario1 (Error_object ''Network error'') \<and>
   snd (handleExport angry_listener scenario1) = Abrupt (Error_object ''listener failed'')"
proof -
  have pc: "passes_validation (scenario1\<lparr>exportFormat := Csv\<rparr>)"
    by (simp add: passes_validation_def scenario1_def initial_def)
  note f = failures_are_caught [OF passes_scenario1 disjI1 [OF fetch_unreachable]]
  note n = failures_are_caught
      [OF passes_scenario1 disjI2 [OF disjI2 [OF disjI1 [OF naming_stopped]]]]
  note v = failures_are_caught
      [OF pc disjI2 [OF disjI2 [OF disjI2 [OF disjI1 [OF conversion_null_record]]]]]
  note d = failures_are_caught
      [OF passes_scenario1 disjI2 [OF disjI2 [OF disjI2 [OF disjI2 [OF download_blocked]]]]]
  note a = failures_are_caught [OF passes_scenario1 disjI1 [OF fetch_angry]]
  have f1: "snd (handleExport unreachable_store scenario1) = Normal"
    using f by (simp add: unreachable_store_def store_def)
  have f2: "filter is_OnError (fst (handleExport unreachable_store scenario1)) =
     [OnError ''Network error'']"
    using f by (simp add: unreachable_store_def store_def error_message_of_def)
  have f3: "message (state_after scenario1 (fst (handleExport unreachable_store scenario1))) =
     ''Export error: Network error''"
    using f by (simp add: error_message_of_def)
  have n1: "filter is_OnError (fst (handleExport stopped_clock scenario1)) =
     [OnError ''Invalid time value'']"
    using n by (simp add: stopped_clock_def store_def error_message_of_def)
  have v1: "snd (handleExport (store (JArr [JNull])) (scenario1\<lparr>exportFormat := Csv\<rparr>)) =
     Normal"
    using v by (simp add: store_def)
  have v2: "filter is_OnError
     (fst (handleExport (store (JArr [JNull])) (scenario1\<lparr>exportFormat := Csv\<rparr>))) =
     [OnError ''Cannot convert undefined or null to object'']"
    using v by (simp add: store_def error_message_of_def)
  have d1: "snd (handleExport blocked_download scenario1) = Normal"
    using d by (simp add: blocked_download_def store_def)
  have d2: "filter is_OnError (fst (handleExport blocked_download scenario1)) =
     [OnError ''Export failed'']"
    using d by (simp add: blocked_download_def store_def error_message_of_def)
  have a1: "snd (handleExport angry_listener scenario1) =
     Abrupt (Error_object ''listener failed'')"
    using a by (simp add: angry_listener_def unreachable_store_def store_def)
  from passes_scenario1 fetch_unreachable f1 f2 f3 naming_stopped n1 pc
    conversion_null_record v1 v2 download_blocked d1 d2 fetch_angry a1
  show ?thesis by blast
qed

text \<open>
  C5, as the code has it. In every successful run, outside the case the naming rule is
  silent about, the name given to the download helper, to the completion callback and to
  the final message is: the user's name with white space trimmed at both ends plus the
  extension, when that name is not blank; otherwise \<open>sanity-export-\<close>, then the selected
  types joined by dashes when the custom-query flag is off or the placeholder \<open>custom\<close>
  when it is on, then a dash, the date and the extension. The extension is \<open>.json\<close> or
  \<open>.csv\<close> by format.
\<close>

theorem output_name_resolved:
  assumes "run_succeeds env c documents len instant body"
      and "\<not> types_left_selected c"
  shows "finalFilename c (hd (split_str (CHR ''T'') instant)) = spec_output_name c instant \<and>
         filter is_side_effect (fst (handleExport env c)) =
           [ClientFetch (buildExportQuery c),
            DownloadFile body (spec_output_name c instant) (mimeType c)] \<and>
         filter is_OnComplete (fst (handleExport env c)) =
           (case onComplete env of
              None \<Rightarrow> []
            | Some callback \<Rightarrow>
                [OnComplete len (exportFormat c) (spec_output_name c instant)]) \<and>
         message (state_after c (fst (handleExport env c))) =
           ''Successfully exported '' @ String_value len @ '' documents as '' @
           spec_output_name c instant \<and>
         snd (handleExport env c) = Normal"
proof -
  note run = run_success [OF assms(1)]
  have p: "passes_validation c" using assms(1) by (simp add: run_succeeds_def)
  note name = finalFilename_spec [OF assms(2) p, of instant]
  have eff: "filter is_side_effect (fst (handleExport env c)) =
           [ClientFetch (buildExportQuery c),
            DownloadFile body (spec_output_name c instant) (mimeType c)]"
    by (simp add: run started_calls counted_calls emitted_calls onComplete_calls
          finally_calls name)
  have cb: "filter is_OnComplete (fst (handleExport env c)) =
           (case onComplete env of
              None \<Rightarrow> []
            | Some callback \<Rightarrow>
                [OnComplete len (exportFormat c) (spec_output_name c instant)])"
    by (simp add: run started_calls counted_calls emitted_calls onComplete_calls
          finally_calls name)
  have msg: "message (state_after c (fst (handleExport env c))) =
           ''Successfully exported '' @ String_value len @ '' documents as '' @
           spec_output_name c instant"
    using message_after_success
      [of c "started c @ counted len @ emitted c (hd (split_str (CHR ''T'') instant)) body"
         "''Successfully exported '' @ String_value len @ '' documents as '' @
          spec_output_name c instant"
         env len "exportFormat c" "spec_output_name c instant"]
    by (simp add: run name)
  have normal: "snd (handleExport env c) = Normal"
    by (simp add: run)
  from name eff cb msg normal show ?thesis by blast
qed

theorem output_name_resolved_witness:
  "run_succeeds (store one_post) (custom_request\<lparr>selectedTypes := [], exportFormat := Csv\<rparr>)
     one_post (Data (JNum ''1'')) ''2024-01-15T10:30:00.000Z''
     ''_id,_type,title\<newline>a,post,Hi'' \<and>
   filter is_OnComplete
     (fst (handleExport (store one_post)
        (custom_request\<lparr>selectedTypes := [], exportFormat := Csv\<rparr>))) =
     [OnComplete (Data (JNum ''1'')) Csv ''sanity-export-custom-2024-01-15.csv''] \<and>
   run_succeeds (store one_post) scenario1 one_post
     (Data (JNum ''1'')) ''2024-01-15T10:30:00.000Z'' (JSON_stringify_2 one_post) \<and>
   filter is_OnComplete (fst (handleExport (store one_post) scenario1)) =
     [OnComplete (Data (JNum ''1'')) Json ''sanity-export-post-2024-01-15.json''] \<and>
   run_succeeds (store one_post) (scenario1\<lparr>filename := '' report ''\<rparr>) one_post
     (Data (JNum ''1'')) ''2024-01-15T10:30:00.000Z'' (JSON_stringify_2 one_post) \<and>
   filter is_side_effect
     (fst (handleExport (store one_post) (scenario1\<lparr>filename := '' report ''\<rparr>))) =
     [ClientFetch (buildExportQuery (scenario1\<lparr>filename := '' report ''\<rparr>)),
      DownloadFile (JSON_stringify_2 one_post) ''report.json'' ''application/json'']"
proof -
  have x: "\<not> types_left_selected (custom_request\<lparr>selectedTypes := [], exportFormat := Csv\<rparr>)"
    by (simp add: types_left_selected_def)
  have y: "\<not> types_left_selected scenario1"
    by (simp add: types_left_selected_def scenario1_def initial_def)
  have z: "\<not> types_left_selected (scenario1\<lparr>filename := '' report ''\<rparr>)"
    by (simp add: types_left_selected_def trim_report)
  note a = output_name_resolved [OF succeeds_no_type x]
  note b = output_name_resolved [OF succeeds_post y]
  note c = output_name_resolved [OF succeeds_named z]
  have a1: "filter is_OnComplete
     (fst (handleExport (store one_post)
        (custom_request\<lparr>selectedTypes := [], exportFormat := Csv\<rparr>))) =
     [OnComplete (Data (JNum ''1'')) Csv ''sanity-export-custom-2024-01-15.csv'']"
    using a by (simp add: name_no_type given_store)
  have b1: "filter is_OnComplete (fst (handleExport (store one_post) scenario1)) =
     [OnComplete (Data (JNum ''1'')) Json ''sanity-export-post-2024-01-15.json'']"
    using b by (simp add: name_post given_store) (simp add: scenario1_def initial_def)
  have c1: "filter is_side_effect
     (fst (handleExport (store one_post) (scenario1\<lparr>filename := '' report ''\<rparr>))) =
     [ClientFetch (buildExportQuery (scenario1\<lparr>filename := '' report ''\<rparr>)),
      DownloadFile (JSON_stringify_2 one_post) ''report.json'' ''application/json'']"
    using c by (simp add: name_named mimeType_def) (simp add: scenario1_def initial_def)
  from succeeds_no_type a1 succeeds_post b1 succeeds_named c1 show ?thesis by blast
qed

text \<open>
  The specification puts the user's name into the output name unchanged. The name
  \<open>report\<close> between two spaces loses them.
\<close>

theorem output_name_counterexample:
  "run_succeeds (store one_post) (scenario1\<lparr>filename := '' report ''\<rparr>) one_post
     (Data (JNum ''1'')) ''2024-01-15T10:30:00.000Z'' (JSON_stringify_2 one_post) \<and>
   trim (filename (scenario1\<lparr>filename := '' report ''\<rparr>)) \<noteq> [] \<and>
   filter is_OnComplete
     (fst (handleExport (store one_post) (scenario1\<lparr>filename := '' report ''\<rparr>))) =
     [OnComplete (Data (JNum ''1'')) Json ''report.json''] \<and>
   ''report.json'' \<noteq> filename (scenario1\<lparr>filename := '' report ''\<rparr>) @ ''.json''"
proof -
  have t: "trim (filename (scenario1\<lparr>filename := '' report ''\<rparr>)) \<noteq> []"
    by (simp add: trim_report)
  have n: "finalFilename (scenario1\<lparr>filename := '' report ''\<rparr>)
      (hd (split_str (CHR ''T'') ''2024-01-15T10:30:00.000Z'')) = ''report.json''"
    by (simp add: finalFilename_def generatedFilename_def trim_report)
       (simp add: scenario1_def initial_def)
  have a: "filter is_OnComplete
     (fst (handleExport (store one_post) (scenario1\<lparr>filename := '' report ''\<rparr>))) =
     [OnComplete (Data (JNum ''1'')) Json ''report.json'']"
    unfolding run_success [OF succeeds_named] fst_conv n
    by (simp add: started_calls counted_calls emitted_calls onComplete_calls finally_calls
          given_store)
       (simp add: scenario1_def initial_def)
  have d: "''report.json'' \<noteq> filename (scenario1\<lparr>filename := '' report ''\<rparr>) @ ''.json''"
    by simp
  from succeeds_named t a d show ?thesis by blast
qed



end
